theory Spec2Isabelle
  imports Main "HOL-Library.Sublist"
begin

section \<open>Python values used by the audit script\<close>

text \<open>
  Exceptions of \<^verbatim>\<open>main.py\<close> and of the libraries it calls are values of \<open>error\<close>;
  a call that may raise returns \<open>error + 'a\<close> with \<open>Inl\<close> for the exception.
  \<open>OtherError\<close> stands for any exception of an external library that the script does
  not name (network faults, parser faults).
\<close>

datatype error =
    ServerResponseError string
  | ValueError string
  | AttributeError
  | TypeError
  | KeyError string
  | FileNotFoundError
  | JSONDecodeError
  | OtherError string

subsection \<open>Strings\<close>

text \<open>
  The text of an initial SQL script is a Python \<^verbatim>\<open>str\<close>: a list of Unicode code points.
  \<open>text_of\<close> reads a literal as such a list. Names, paths and identifiers, which the
  script only compares and copies, stay \<open>string\<close>s.

  \<^verbatim>\<open>str.strip()\<close> removes the characters for which \<^verbatim>\<open>str.isspace\<close> holds; these are all
  of them. \<^verbatim>\<open>str.upper()\<close> maps every character by the full uppercase mapping of the
  Unicode database, which may give several characters: within ASCII it maps \<open>a..z\<close> to
  \<open>A..Z\<close> and nothing else; outside ASCII it is a table of the Python runtime, taken as
  the parameter \<open>unicode_upper\<close>.
\<close>

type_synonym pystr = "nat list"

definition text_of :: "string \<Rightarrow> pystr" where
  "text_of s = map of_char s"

definition isspace :: "nat \<Rightarrow> bool" where
  "isspace c \<longleftrightarrow>
     c \<in> set [0x09, 0x0A, 0x0B, 0x0C, 0x0D, 0x1C, 0x1D, 0x1E, 0x1F, 0x20, 0x85, 0xA0,
                0x1680, 0x2000, 0x2001, 0x2002, 0x2003, 0x2004, 0x2005, 0x2006, 0x2007,
                0x2008, 0x2009, 0x200A, 0x2028, 0x2029, 0x202F, 0x205F, 0x3000]"

definition upper_char :: "(nat \<Rightarrow> nat list) \<Rightarrow> nat \<Rightarrow> nat list" where
  "upper_char unicode_upper c =
     (if c < 128 then (if 97 \<le> c \<and> c \<le> 122 then [c - 32] else [c])
      else unicode_upper c)"

definition upper :: "(nat \<Rightarrow> nat list) \<Rightarrow> pystr \<Rightarrow> pystr" where
  "upper unicode_upper s = concat (map (upper_char unicode_upper) s)"

definition lstrip :: "pystr \<Rightarrow> pystr" where
  "lstrip s = dropWhile isspace s"

definition rstrip :: "pystr \<Rightarrow> pystr" where
  "rstrip s = rev (dropWhile isspace (rev s))"

definition strip :: "pystr \<Rightarrow> pystr" where
  "strip s = rstrip (lstrip s)"

definition startswith :: "'a list \<Rightarrow> 'a list \<Rightarrow> bool" where
  "startswith s p = (take (length p) s = p)"

definition endswith :: "'a list \<Rightarrow> 'a list \<Rightarrow> bool" where
  "endswith s x = (length x \<le> length s \<and> drop (length s - length x) s = x)"

section \<open>The compliance predicate\<close>

text \<open>
  \<^verbatim>\<open>init_sql_has_query_tag(init_sql)\<close>, lines 173-180. The argument is what
  \<^verbatim>\<open>sf_connection.initial_sql\<close> holds: \<open>Some s\<close> for a \<^verbatim>\<open>str\<close>, \<open>None\<close> for Python's
  \<^verbatim>\<open>None\<close>, on which the attribute lookup \<^verbatim>\<open>init_sql.upper\<close> raises.
\<close>

definition query_tag_text :: pystr where
  "query_tag_text = text_of ''ALTER SESSION SET QUERY_TAG''"

definition init_sql_has_query_tag :: "(nat \<Rightarrow> nat list) \<Rightarrow> pystr option \<Rightarrow> error + bool" where
  "init_sql_has_query_tag unicode_upper init_sql =
     (case init_sql of
        None \<Rightarrow> Inl AttributeError
      | Some s \<Rightarrow> Inr (startswith (strip (upper unicode_upper s)) query_tag_text))"

subsection \<open>JSON values and the checkpoint file\<close>

text \<open>
  What \<^verbatim>\<open>json.load\<close> returns. A JSON object is a Python \<^verbatim>\<open>dict\<close>, kept as an
  association list in insertion order. JSON numbers with a fraction (Python floats) are
  not part of the model.
\<close>

datatype json =
    JNull
  | JBool bool
  | JInt int
  | JStr string
  | JList "json list"
  | JDict "(string \<times> json) list"

text \<open>\<^verbatim>\<open>config[key]\<close>: only a dict can be indexed by a string.\<close>

definition py_getitem :: "json \<Rightarrow> string \<Rightarrow> error + json" where
  "py_getitem obj key =
     (case obj of
        JDict kvs \<Rightarrow> (case map_of kvs key of None \<Rightarrow> Inl (KeyError key) | Some v \<Rightarrow> Inr v)
      | _ \<Rightarrow> Inl TypeError)"

text \<open>
  \<^verbatim>\<open>config[key] = v\<close>: an existing key keeps its position, a new key is appended.
\<close>

fun dict_update :: "string \<Rightarrow> json \<Rightarrow> (string \<times> json) list \<Rightarrow> (string \<times> json) list" where
  "dict_update k v [] = [(k, v)]"
| "dict_update k v (p # ps) = (if fst p = k then (k, v) # ps else p # dict_update k v ps)"

definition py_setitem :: "json \<Rightarrow> string \<Rightarrow> json \<Rightarrow> error + json" where
  "py_setitem obj key v =
     (case obj of
        JDict kvs \<Rightarrow> Inr (JDict (dict_update key v kvs))
      | _ \<Rightarrow> Inl TypeError)"

text \<open>
  \<^verbatim>\<open>x * k\<close> for an integer literal \<open>k\<close>: integers multiply (\<^verbatim>\<open>True\<close> is 1 and
  \<^verbatim>\<open>False\<close> is 0), strings and lists repeat, \<^verbatim>\<open>None\<close> and dicts raise.
\<close>

definition py_mul :: "json \<Rightarrow> int \<Rightarrow> error + json" where
  "py_mul x k =
     (case x of
        JInt n \<Rightarrow> Inr (JInt (n * k))
      | JBool b \<Rightarrow> Inr (JInt ((if b then 1 else 0) * k))
      | JStr s \<Rightarrow> Inr (JStr (concat (replicate (nat k) s)))
      | JList xs \<Rightarrow> Inr (JList (concat (replicate (nat k) xs)))
      | JNull \<Rightarrow> Inl TypeError
      | JDict kvs \<Rightarrow> Inl TypeError)"

text \<open>
  The state of \<^verbatim>\<open>workbook_config.json\<close> as \<^verbatim>\<open>open\<close> followed by \<^verbatim>\<open>json.load\<close> sees it.
\<close>

datatype config_state = Absent | Malformed | Parsed json

definition load_config :: "config_state \<Rightarrow> error + json" where
  "load_config c =
     (case c of
        Absent \<Rightarrow> Inl FileNotFoundError
      | Malformed \<Rightarrow> Inl JSONDecodeError
      | Parsed j \<Rightarrow> Inr j)"

subsection \<open>Dates\<close>

text \<open>
  The naive \<^verbatim>\<open>datetime\<close> object that \<^verbatim>\<open>datetime.datetime.now()\<close> returns, and
  \<^verbatim>\<open>strftime\<close> for the one format the script uses. \<^verbatim>\<open>%Y\<close> is the year in four digits,
  \<^verbatim>\<open>%m %d %H %M %S\<close> are two digits each, everything else is copied.
\<close>

record datetime =
  year :: nat
  month :: nat
  day :: nat
  hour :: nat
  minute :: nat
  second :: nat
  microsecond :: nat

definition valid_datetime :: "datetime \<Rightarrow> bool" where
  "valid_datetime d \<longleftrightarrow>
     1 \<le> year d \<and> year d \<le> 9999 \<and> 1 \<le> month d \<and> month d \<le> 12 \<and>
     1 \<le> day d \<and> day d \<le> 31 \<and> hour d < 24 \<and> minute d < 60 \<and> second d < 60 \<and>
     microsecond d < 1000000"

definition digit_char :: "nat \<Rightarrow> char" where
  "digit_char d = ''0123456789'' ! (d mod 10)"

definition pad2 :: "nat \<Rightarrow> string" where
  "pad2 n = [digit_char (n div 10), digit_char n]"

definition pad4 :: "nat \<Rightarrow> string" where
  "pad4 n = [digit_char (n div 1000), digit_char (n div 100), digit_char (n div 10), digit_char n]"

definition strftime_checkpoint :: "datetime \<Rightarrow> string" where
  "strftime_checkpoint now =
     pad4 (year now) @ ''-'' @ pad2 (month now) @ ''-'' @ pad2 (day now) @ ''T'' @
     pad2 (hour now) @ '':'' @ pad2 (minute now) @ '':'' @ pad2 (second now) @ ''Z''"

section \<open>The catalog, the parser and the local machine\<close>

text \<open>
  Items of \<^verbatim>\<open>tableauserverclient\<close> and \<^verbatim>\<open>tableaudocumentapi\<close>, with the attributes
  the script reads or writes. \<^verbatim>\<open>os.getenv\<close> returns \<^verbatim>\<open>None\<close> for an unset variable, so
  the tag is a \<open>string option\<close>.
\<close>

record live_connection =
  connection_type :: string

record workbook_item =
  wb_id :: string
  wb_name :: string
  wb_tags :: "string option set"
  wb_connections :: "live_connection list"

record connection =
  dbclass :: string
  dbname :: string
  initial_sql :: "pystr option"

record datasource =
  connections :: "connection list"

datatype operator =
  Equals | GreaterThan | GreaterThanOrEqual | LessThan | LessThanOrEqual | In | Has

datatype tsc_filter = Filter string operator json

text \<open>
  What the script does to the outside world, in the order it does it: the calls it sends
  to the catalog, the lines it prints, the files it removes and what it writes to the
  checkpoint file. Calls to the logger are not recorded.
\<close>

datatype event =
    EvSignIn
  | EvQuery "tsc_filter list"
  | EvPopulate string
  | EvDownload string string
  | EvPrint string
  | EvUpdate workbook_item
  | EvRemove string
  | EvWriteConfig json

text \<open>
  The local machine: the environment variables, whether the \<^verbatim>\<open>content\<close> directory
  exists, the checkpoint file, the downloaded files (by path, with contents of an
  arbitrary type \<open>'f\<close>), the clock and the trace. \<open>clock\<close> is what
  \<^verbatim>\<open>datetime.datetime.now()\<close> returns: the current time on the wall clock of the machine's
  time zone. \<open>utc_clock\<close> is the same instant on the wall clock of UTC; the two agree on
  a machine whose zone is UTC.
\<close>

record 'f world =
  environ :: "string \<rightharpoonup> string"
  content_dir :: bool
  config_file :: config_state
  files :: "string \<rightharpoonup> 'f"
  clock :: datetime
  utc_clock :: datetime
  events :: "event list"

text \<open>
  The external collaborators, taken as parameters: the answers of the catalog service
  (\<^verbatim>\<open>TSC.Server\<close>) and of the workbook-file parser, and the uppercase mapping of the
  Python runtime outside ASCII. A listing is the items the pager yields and the fault, if
  any, that ends the iteration after them; a download answers with the path of the file
  it wrote and that file's contents.
\<close>

record 'f api =
  sign_in :: "string option \<Rightarrow> string option \<Rightarrow> string option \<Rightarrow> string option \<Rightarrow> error option"
  workbooks_get :: "tsc_filter list \<Rightarrow> workbook_item list \<times> error option"
  populate_connections :: "workbook_item \<Rightarrow> error + live_connection list"
  workbooks_download :: "string \<Rightarrow> error + string \<times> 'f"
  datasources_download :: "string \<Rightarrow> error + string \<times> 'f"
  workbooks_update :: "workbook_item \<Rightarrow> error option"
  Workbook_datasources :: "'f \<Rightarrow> error + datasource list"
  Datasource_from_file :: "'f \<Rightarrow> error + datasource"
  unicode_upper :: "nat \<Rightarrow> nat list"

definition emit :: "event \<Rightarrow> 'f world \<Rightarrow> 'f world" where
  "emit e w = w\<lparr>events := events w @ [e]\<rparr>"

section \<open>The functions of main.py\<close>

text \<open>\<^verbatim>\<open>create_tableau_session\<close>, lines 22-39. The session it returns is the \<open>api\<close>.\<close>

definition create_tableau_session ::
  "'f api \<Rightarrow> string option \<Rightarrow> string option \<Rightarrow> string option \<Rightarrow> string option \<Rightarrow>
   'f world \<Rightarrow> (error + unit) \<times> 'f world" where
  "create_tableau_session api pat_name pat_value server_address site_id w =
     (case sign_in api pat_name pat_value server_address site_id of
        Some e \<Rightarrow> (Inl e, emit EvSignIn w)
      | None \<Rightarrow> (Inr (), emit EvSignIn w))"

text \<open>
  \<^verbatim>\<open>download_resource\<close>, lines 42-67. A \<^verbatim>\<open>ServerResponseError\<close> is printed and raised
  again; any other exception of the download passes through.
\<close>

definition download_resource ::
  "'f api \<Rightarrow> string \<Rightarrow> string \<Rightarrow> 'f world \<Rightarrow> (error + string) \<times> 'f world" where
  "download_resource api resource_id resource_type w =
     (if resource_type \<notin> set [''workbook'', ''datasource'']
      then (Inl (ValueError ''source_type must be either workbook or datasource''), w)
      else
        let endpoint_download =
              (if resource_type = ''workbook'' then workbooks_download api
               else datasources_download api);
            w1 = emit (EvDownload resource_type resource_id) w
        in case endpoint_download resource_id of
             Inl (ServerResponseError m) \<Rightarrow> (Inl (ServerResponseError m), emit (EvPrint m) w1)
           | Inl e \<Rightarrow> (Inl e, w1)
           | Inr (path, content) \<Rightarrow> (Inr path, w1\<lparr>files := (files w1)(path \<mapsto> content)\<rparr>))"

text \<open>
  \<^verbatim>\<open>get_workbooks_from_config\<close>, lines 70-101. The \<^verbatim>\<open>TSC.Pager\<close> it returns is lazy:
  it is the request options, and the query goes out when the pager is iterated. The
  variable \<^verbatim>\<open>size\<close> is \<open>size_mb\<close> here, and \<^verbatim>\<open>size * 1024 * 1024\<close> is two
  multiplications, left to right.
\<close>

definition get_workbooks_from_config :: "'f world \<Rightarrow> error + tsc_filter list" where
  "get_workbooks_from_config w =
     (case load_config (config_file w) of
        Inl e \<Rightarrow> Inl e
      | Inr config \<Rightarrow>
     (case py_getitem config ''content_size'' of
        Inl e \<Rightarrow> Inl e
      | Inr size_mb \<Rightarrow>
     (case py_getitem config ''date_checkpoint'' of
        Inl e \<Rightarrow> Inl e
      | Inr date_checkpoint \<Rightarrow>
     (case py_mul size_mb 1024 of
        Inl e \<Rightarrow> Inl e
      | Inr size_kb \<Rightarrow>
     (case py_mul size_kb 1024 of
        Inl e \<Rightarrow> Inl e
      | Inr size_to_bytes \<Rightarrow>
          Inr [Filter ''size'' LessThanOrEqual size_to_bytes,
               Filter ''updatedAt'' GreaterThanOrEqual date_checkpoint])))))"

text \<open>
  \<^verbatim>\<open>get_connections_for_dbclass\<close>, lines 104-127: the inner loop over the connections
  of one datasource, the outer loop over the datasources, and the dispatch on the
  file extension.
\<close>

fun dbclass_inner_loop :: "connection list \<Rightarrow> string \<Rightarrow> connection list \<Rightarrow> connection list" where
  "dbclass_inner_loop [] target dbclass_connections = dbclass_connections"
| "dbclass_inner_loop (c # cs) target dbclass_connections =
     dbclass_inner_loop cs target
       (if dbclass c = target then dbclass_connections @ [c] else dbclass_connections)"

fun dbclass_outer_loop :: "datasource list \<Rightarrow> string \<Rightarrow> connection list \<Rightarrow> connection list" where
  "dbclass_outer_loop [] target dbclass_connections = dbclass_connections"
| "dbclass_outer_loop (d # ds) target dbclass_connections =
     dbclass_outer_loop ds target (dbclass_inner_loop (connections d) target dbclass_connections)"

definition read_file :: "'f world \<Rightarrow> string \<Rightarrow> error + 'f" where
  "read_file w filename =
     (case files w filename of None \<Rightarrow> Inl FileNotFoundError | Some content \<Rightarrow> Inr content)"

definition get_connections_for_dbclass ::
  "'f api \<Rightarrow> string \<Rightarrow> string \<Rightarrow> 'f world \<Rightarrow> (error + connection list) \<times> 'f world" where
  "get_connections_for_dbclass api filename target w =
     (if endswith filename ''.twb'' \<or> endswith filename ''.twbx'' then
        (case read_file w filename of
           Inl e \<Rightarrow> (Inl e, w)
         | Inr content \<Rightarrow>
        (case Workbook_datasources api content of
           Inl e \<Rightarrow> (Inl e, w)
         | Inr datasources \<Rightarrow> (Inr (dbclass_outer_loop datasources target []), w)))
      else if endswith filename ''.tds'' \<or> endswith filename ''.tdsx'' then
        (case read_file w filename of
           Inl e \<Rightarrow> (Inl e, w)
         | Inr content \<Rightarrow>
        (case Datasource_from_file api content of
           Inl e \<Rightarrow> (Inl e, w)
         | Inr resource \<Rightarrow> (Inr (dbclass_outer_loop [resource] target []), w)))
      else (Inr [], emit (EvPrint ''Unsupported file type'') w))"

text \<open>
  \<^verbatim>\<open>filter_wbs_with_snowflake_connections\<close>, lines 130-149. The inner loop appends the
  workbook at the first Snowflake connection and breaks; the outer loop populates each
  workbook the pager yields; a fault of the pager ends the iteration with its exception.
\<close>

fun snowflake_inner_loop ::
  "workbook_item \<Rightarrow> live_connection list \<Rightarrow> workbook_item list \<Rightarrow> workbook_item list" where
  "snowflake_inner_loop wb [] wbs_with_sf_connections = wbs_with_sf_connections"
| "snowflake_inner_loop wb (c # cs) wbs_with_sf_connections =
     (if connection_type c = ''snowflake'' then wbs_with_sf_connections @ [wb]
      else snowflake_inner_loop wb cs wbs_with_sf_connections)"

fun snowflake_outer_loop ::
  "'f api \<Rightarrow> workbook_item list \<Rightarrow> workbook_item list \<Rightarrow> 'f world \<Rightarrow>
   (error + workbook_item list) \<times> 'f world" where
  "snowflake_outer_loop api [] wbs_with_sf_connections w = (Inr wbs_with_sf_connections, w)"
| "snowflake_outer_loop api (wb # rest) wbs_with_sf_connections w =
     (case populate_connections api wb of
        Inl e \<Rightarrow> (Inl e, emit (EvPopulate (wb_id wb)) w)
      | Inr cs \<Rightarrow>
          snowflake_outer_loop api rest
            (snowflake_inner_loop (wb\<lparr>wb_connections := cs\<rparr>) cs wbs_with_sf_connections)
            (emit (EvPopulate (wb_id wb)) w))"

definition filter_wbs_with_snowflake_connections ::
  "'f api \<Rightarrow> tsc_filter list \<Rightarrow> 'f world \<Rightarrow> (error + workbook_item list) \<times> 'f world" where
  "filter_wbs_with_snowflake_connections api workbooks w =
     (case workbooks_get api workbooks of
        (items, fault) \<Rightarrow>
     (case snowflake_outer_loop api items [] (emit (EvQuery workbooks) w) of
        (Inl e, w1) \<Rightarrow> (Inl e, w1)
      | (Inr wbs_with_sf_connections, w1) \<Rightarrow>
     (case fault of
        Some e \<Rightarrow> (Inl e, w1)
      | None \<Rightarrow> (Inr wbs_with_sf_connections, w1))))"

text \<open>\<^verbatim>\<open>update_workbook_config_with_date_checkpoint\<close>, lines 152-171.\<close>

definition update_workbook_config_with_date_checkpoint ::
  "'f world \<Rightarrow> (error + string) \<times> 'f world" where
  "update_workbook_config_with_date_checkpoint w =
     (case load_config (config_file w) of
        Inl e \<Rightarrow> (Inl e, w)
      | Inr config \<Rightarrow>
          (let now = clock w;
               formatted_date = strftime_checkpoint now
           in (case py_setitem config ''date_checkpoint'' (JStr formatted_date) of
                 Inl e \<Rightarrow> (Inl e, w)
               | Inr config' \<Rightarrow>
                   (Inr formatted_date,
                    emit (EvWriteConfig config') (w\<lparr>config_file := Parsed config'\<rparr>)))))"

text \<open>\<^verbatim>\<open>add_workbook_tag\<close>, lines 182-192.\<close>

definition add_workbook_tag ::
  "'f api \<Rightarrow> workbook_item \<Rightarrow> string option \<Rightarrow> 'f world \<Rightarrow>
   (error + string option set) \<times> 'f world" where
  "add_workbook_tag api wb tag w =
     (let wb' = wb\<lparr>wb_tags := insert tag (wb_tags wb)\<rparr>
      in case workbooks_update api wb' of
           Some e \<Rightarrow> (Inl e, emit (EvUpdate wb') w)
         | None \<Rightarrow> (Inr (wb_tags wb'), emit (EvUpdate wb') w))"

text \<open>
  \<^verbatim>\<open>main\<close>, lines 194-243: the loop of lines 227-235 that counts the connections
  without a query tag, the body of the loop over the workbooks (lines 217-240), that
  loop, and the whole run.
\<close>

fun query_tag_count_loop ::
  "(nat \<Rightarrow> nat list) \<Rightarrow> connection list \<Rightarrow> nat \<Rightarrow> error + nat" where
  "query_tag_count_loop up [] query_tag_count = Inr query_tag_count"
| "query_tag_count_loop up (sf_connection # rest) query_tag_count =
     (case init_sql_has_query_tag up (initial_sql sf_connection) of
        Inl e \<Rightarrow> Inl e
      | Inr has_query_tag \<Rightarrow>
          if has_query_tag then query_tag_count_loop up rest query_tag_count
          else query_tag_count_loop up rest (query_tag_count + 1))"

definition os_remove :: "string \<Rightarrow> 'f world \<Rightarrow> (error + unit) \<times> 'f world" where
  "os_remove path w =
     (case files w path of
        None \<Rightarrow> (Inl FileNotFoundError, w)
      | Some content \<Rightarrow> (Inr (), emit (EvRemove path) (w\<lparr>files := (files w)(path := None)\<rparr>)))"

definition main_loop_body ::
  "'f api \<Rightarrow> string option \<Rightarrow> workbook_item \<Rightarrow> 'f world \<Rightarrow> (error + unit) \<times> 'f world" where
  "main_loop_body api TABLEAU_TAG wb w =
     (case download_resource api (wb_id wb) ''workbook'' w of
        (Inl e, w1) \<Rightarrow> (Inl e, w1)
      | (Inr resource_filename, w1) \<Rightarrow>
     (case get_connections_for_dbclass api resource_filename ''snowflake'' w1 of
        (Inl e, w2) \<Rightarrow> (Inl e, w2)
      | (Inr snowflake_connections, w2) \<Rightarrow>
     (case query_tag_count_loop (unicode_upper api) snowflake_connections 0 of
        Inl e \<Rightarrow> (Inl e, w2)
      | Inr query_tag_count \<Rightarrow>
          if query_tag_count > 0 then
            (case add_workbook_tag api wb TABLEAU_TAG w2 of
               (Inl e, w3) \<Rightarrow> (Inl e, w3)
             | (Inr updated_wb_tags, w3) \<Rightarrow> os_remove resource_filename w3)
          else os_remove resource_filename w2)))"

fun main_loop ::
  "'f api \<Rightarrow> string option \<Rightarrow> workbook_item list \<Rightarrow> 'f world \<Rightarrow> (error + unit) \<times> 'f world" where
  "main_loop api TABLEAU_TAG [] w = (Inr (), w)"
| "main_loop api TABLEAU_TAG (wb # rest) w =
     (case main_loop_body api TABLEAU_TAG wb w of
        (Inl e, w1) \<Rightarrow> (Inl e, w1)
      | (Inr u, w1) \<Rightarrow> main_loop api TABLEAU_TAG rest w1)"

definition main :: "'f api \<Rightarrow> 'f world \<Rightarrow> (error + unit) \<times> 'f world" where
  "main api w =
     (let w0 = (if \<not> content_dir w then w\<lparr>content_dir := True\<rparr> else w);
          TABLEAU_TAG = environ w0 ''TABLEAU_TAG''
      in
     (case create_tableau_session api (environ w0 ''PAT_NAME'') (environ w0 ''PAT_VALUE'')
             (environ w0 ''SERVER_ADDRESS'') (environ w0 ''SITE_ID'') w0 of
        (Inl e, w1) \<Rightarrow> (Inl e, w1)
      | (Inr server, w1) \<Rightarrow>
     (case get_workbooks_from_config w1 of
        Inl e \<Rightarrow> (Inl e, w1)
      | Inr workbooks_to_check \<Rightarrow>
     (case filter_wbs_with_snowflake_connections api workbooks_to_check w1 of
        (Inl e, w2) \<Rightarrow> (Inl e, w2)
      | (Inr wbs_with_sf_connections, w2) \<Rightarrow>
     (case main_loop api TABLEAU_TAG wbs_with_sf_connections w2 of
        (Inl e, w3) \<Rightarrow> (Inl e, w3)
      | (Inr u, w3) \<Rightarrow>
     (case update_workbook_config_with_date_checkpoint w3 of
        (Inl e, w4) \<Rightarrow> (Inl e, w4)
      | (Inr updated_config_date, w4) \<Rightarrow> (Inr (), w4)))))))"

section \<open>Notions of the specification\<close>

text \<open>
  Trimming as the specification words it: \<open>t\<close> is \<open>s\<close> without its leading and trailing
  whitespace when \<open>s\<close> is \<open>t\<close> between two runs of whitespace and \<open>t\<close> neither
  starts nor ends with whitespace.
\<close>

definition trimmed :: "pystr \<Rightarrow> pystr \<Rightarrow> bool" where
  "trimmed s t \<longleftrightarrow>
     (\<exists>l r. s = l @ t @ r \<and> list_all isspace l \<and> list_all isspace r \<and>
            (t = [] \<or> (\<not> isspace (hd t) \<and> \<not> isspace (last t))))"

text \<open>
  Projections of a trace: the workbooks sent to the catalog's update operation, the
  identifiers of the downloaded workbooks, and the checkpoints written.
\<close>

definition update_calls :: "event list \<Rightarrow> workbook_item list" where
  "update_calls evs = concat (map (\<lambda>e. case e of EvUpdate wb \<Rightarrow> [wb] | _ \<Rightarrow> []) evs)"

definition download_calls :: "event list \<Rightarrow> string list" where
  "download_calls evs = concat (map (\<lambda>e. case e of EvDownload t i \<Rightarrow> [i] | _ \<Rightarrow> []) evs)"

definition write_calls :: "event list \<Rightarrow> json list" where
  "write_calls evs = concat (map (\<lambda>e. case e of EvWriteConfig c \<Rightarrow> [c] | _ \<Rightarrow> []) evs)"

text \<open>A workbook item after \<^verbatim>\<open>populate_connections\<close> has answered for it.\<close>

definition populated :: "'f api \<Rightarrow> workbook_item \<Rightarrow> workbook_item" where
  "populated api wb =
     (case populate_connections api wb of
        Inl e \<Rightarrow> wb
      | Inr cs \<Rightarrow> wb\<lparr>wb_connections := cs\<rparr>)"





text \<open>
  The shape \<^verbatim>\<open>YYYY-MM-DDTHH:MM:SSZ\<close> and the number a run of digits denotes.
\<close>

definition is_digit :: "char \<Rightarrow> bool" where
  "is_digit c \<longleftrightarrow> c \<in> set ''0123456789''"

definition matches_checkpoint_format :: "string \<Rightarrow> bool" where
  "matches_checkpoint_format s \<longleftrightarrow>
     length s = 20 \<and>
     list_all is_digit (take 4 s) \<and> s ! 4 = CHR ''-'' \<and>
     list_all is_digit (take 2 (drop 5 s)) \<and> s ! 7 = CHR ''-'' \<and>
     list_all is_digit (take 2 (drop 8 s)) \<and> s ! 10 = CHR ''T'' \<and>
     list_all is_digit (take 2 (drop 11 s)) \<and> s ! 13 = CHR '':'' \<and>
     list_all is_digit (take 2 (drop 14 s)) \<and> s ! 16 = CHR '':'' \<and>
     list_all is_digit (take 2 (drop 17 s)) \<and> s ! 19 = CHR ''Z''"

definition digit_value :: "char \<Rightarrow> nat" where
  "digit_value c = (case map_of (zip ''0123456789'' [0, 1, 2, 3, 4, 5, 6, 7, 8, 9]) c of
                      Some d \<Rightarrow> d | None \<Rightarrow> 0)"

definition decimal :: "string \<Rightarrow> nat" where
  "decimal s = foldl (\<lambda>n c. 10 * n + digit_value c) 0 s"

definition checkpoint_fields :: "string \<Rightarrow> datetime" where
  "checkpoint_fields s =
     \<lparr>year = decimal (take 4 s), month = decimal (take 2 (drop 5 s)),
      day = decimal (take 2 (drop 8 s)), hour = decimal (take 2 (drop 11 s)),
      minute = decimal (take 2 (drop 14 s)), second = decimal (take 2 (drop 17 s)),
      microsecond = 0\<rparr>"

text \<open>
  \<open>step w evs w'\<close>: from \<open>w\<close> to \<open>w'\<close> the trace grew by \<open>evs\<close> while the checkpoint file
  and the clock stayed as they were. \<open>quiet evs\<close>: no update, download or checkpoint
  write among \<open>evs\<close>.
\<close>

definition step :: "'f world \<Rightarrow> event list \<Rightarrow> 'f world \<Rightarrow> bool" where
  "step w evs w' \<longleftrightarrow>
     events w' = events w @ evs \<and> config_file w' = config_file w \<and> clock w' = clock w \<and>
     environ w' = environ w"

definition quiet :: "event list \<Rightarrow> bool" where
  "quiet evs \<longleftrightarrow> update_calls evs = [] \<and> download_calls evs = [] \<and> write_calls evs = []"

section \<open>A concrete catalog and machine\<close>

text \<open>
  Three workbooks are listed. \<open>w1\<close> has two live Snowflake connections and, in its file,
  one Snowflake connection without a query tag, one with it and one Postgres connection
  in a second datasource; \<open>w2\<close> has only a Postgres connection; \<open>w3\<close> has a Snowflake
  connection whose initial SQL sets the query tag. File contents are numbers. Sign-in
  needs the token and the address; of the uppercase table the catalog uses the entries
  for U+00DF and U+017F, every other character being left as it is.
\<close>

definition demo_items :: "workbook_item list" where
  "demo_items =
     [\<lparr>wb_id = ''w1'', wb_name = ''Sales'', wb_tags = {}, wb_connections = []\<rparr>,
      \<lparr>wb_id = ''w2'', wb_name = ''Staff'', wb_tags = {}, wb_connections = []\<rparr>,
      \<lparr>wb_id = ''w3'', wb_name = ''Costs'', wb_tags = {}, wb_connections = []\<rparr>]"

definition demo_datasources :: "nat \<Rightarrow> datasource list" where
  "demo_datasources f =
     (if f = 1 then
        [\<lparr>connections =
            [\<lparr>dbclass = ''snowflake'', dbname = ''RAW'', initial_sql = Some (text_of ''SELECT 1'')\<rparr>,
             \<lparr>dbclass = ''snowflake'', dbname = ''MART'',
              initial_sql = Some (text_of '' alter session set query_tag = 1'')\<rparr>]\<rparr>,
         \<lparr>connections =
            [\<lparr>dbclass = ''postgres'', dbname = ''APP'', initial_sql = None\<rparr>]\<rparr>]
      else
        [\<lparr>connections =
            [\<lparr>dbclass = ''snowflake'', dbname = ''MART'',
              initial_sql = Some (text_of ''ALTER SESSION SET QUERY_TAG = 2'')\<rparr>]\<rparr>])"

definition demo_api :: "nat api" where
  "demo_api =
     \<lparr>sign_in =
        (\<lambda>pat_name pat_value server_address site_id.
           if pat_name = Some ''audit'' \<and> pat_value = Some ''s3cret'' \<and>
              server_address = Some ''https://tableau.example''
           then None else Some (ServerResponseError ''401001'')),
      workbooks_get = (\<lambda>request_opts. (demo_items, None)),
      populate_connections =
        (\<lambda>wb. if wb_id wb = ''w1''
               then Inr [\<lparr>connection_type = ''snowflake''\<rparr>, \<lparr>connection_type = ''snowflake''\<rparr>]
               else if wb_id wb = ''w2'' then Inr [\<lparr>connection_type = ''postgres''\<rparr>]
               else Inr [\<lparr>connection_type = ''postgres''\<rparr>, \<lparr>connection_type = ''snowflake''\<rparr>]),
      workbooks_download =
        (\<lambda>i. if i = ''w1'' then Inr (''content/Sales.twbx'', 1)
              else if i = ''w3'' then Inr (''content/Costs.twb'', 3)
              else Inl (ServerResponseError ''404'')),
      datasources_download = (\<lambda>i. Inl (ServerResponseError ''404'')),
      workbooks_update = (\<lambda>wb. None),
      Workbook_datasources = (\<lambda>f. Inr (demo_datasources f)),
      Datasource_from_file = (\<lambda>f. Inr (hd (demo_datasources f))),
      unicode_upper = (\<lambda>c. if c = 0xDF then [0x53, 0x53] else if c = 0x17F then [0x53] else [c])\<rparr>"

text \<open>
  The machine is two hours east of UTC: its wall clock reads 09:05:59 when the wall
  clock of UTC reads 07:05:59.
\<close>

definition demo_now :: datetime where
  "demo_now =
     \<lparr>year = 2024, month = 6, day = 1, hour = 9, minute = 5, second = 59,
      microsecond = 123456\<rparr>"

definition demo_utc_now :: datetime where
  "demo_utc_now =
     \<lparr>year = 2024, month = 6, day = 1, hour = 7, minute = 5, second = 59,
      microsecond = 123456\<rparr>"

definition demo_config :: "(string \<times> json) list" where
  "demo_config =
     [(''content_size'', JInt 50), (''date_checkpoint'', JStr ''2024-01-01T00:00:00Z'')]"

definition demo_world :: "nat world" where
  "demo_world =
     \<lparr>environ =
        [''TABLEAU_TAG'' \<mapsto> ''needs-query-tag'', ''PAT_NAME'' \<mapsto> ''audit'',
         ''PAT_VALUE'' \<mapsto> ''s3cret'', ''SERVER_ADDRESS'' \<mapsto> ''https://tableau.example'',
         ''SITE_ID'' \<mapsto> ''finance''],
      content_dir = False,
      config_file = Parsed (JDict demo_config),
      files = Map.empty,
      clock = demo_now,
      utc_clock = demo_utc_now,
      events = []\<rparr>"



text \<open>The machine with two downloaded files on disk, and one with a file of another kind.\<close>

definition demo_disk :: "nat world" where
  "demo_disk = demo_world\<lparr>files := [''content/Sales.twbx'' \<mapsto> 1, ''content/Raw.tds'' \<mapsto> 1]\<rparr>"

definition odd_api :: "nat api" where
  "odd_api = demo_api\<lparr>workbooks_download := (\<lambda>i. Inr (''content/'' @ i @ ''.zip'', 1))\<rparr>"

text \<open>The two workbooks of the listing that have a live Snowflake connection.\<close>

definition demo_filtered :: "workbook_item list" where
  "demo_filtered =
     [\<lparr>wb_id = ''w1'', wb_name = ''Sales'', wb_tags = {},
       wb_connections = [\<lparr>connection_type = ''snowflake''\<rparr>, \<lparr>connection_type = ''snowflake''\<rparr>]\<rparr>,
      \<lparr>wb_id = ''w3'', wb_name = ''Costs'', wb_tags = {},
       wb_connections = [\<lparr>connection_type = ''postgres''\<rparr>, \<lparr>connection_type = ''snowflake''\<rparr>]\<rparr>]"

text \<open>
  A catalog whose first workbook has, in its file, a Snowflake connection with no initial
  SQL at all after one whose initial SQL lacks the query tag; a catalog whose listing is
  cut short by a fault; and the machine without its credentials.
\<close>

definition gap_connections :: "connection list" where
  "gap_connections =
     [\<lparr>dbclass = ''snowflake'', dbname = ''RAW'', initial_sql = Some (text_of ''SELECT 1'')\<rparr>,
      \<lparr>dbclass = ''snowflake'', dbname = ''NEW'', initial_sql = None\<rparr>]"

definition gap_api :: "nat api" where
  "gap_api = demo_api\<lparr>Workbook_datasources := (\<lambda>f. Inr [\<lparr>connections = gap_connections\<rparr>])\<rparr>"



section \<open>Unfolding rules for concrete runs\<close>

lemmas eval_str =
  init_sql_has_query_tag_def startswith_def strip_def lstrip_def rstrip_def upper_def
  upper_char_def isspace_def query_tag_text_def text_of_def

lemmas demo_defs =
  demo_api_def demo_world_def demo_items_def demo_datasources_def demo_now_def demo_config_def
  demo_filtered_def demo_utc_now_def

lemmas run_defs =
  main_def create_tableau_session_def get_workbooks_from_config_def
  filter_wbs_with_snowflake_connections_def main_loop_body_def download_resource_def
  get_connections_for_dbclass_def add_workbook_tag_def os_remove_def
  update_workbook_config_with_date_checkpoint_def emit_def load_config_def py_getitem_def
  py_setitem_def py_mul_def read_file_def endswith_def Let_def

section \<open>The compliance predicate: proofs\<close>

text \<open>
  The whitespace of \<^verbatim>\<open>str.isspace\<close> by ranges, and \<^verbatim>\<open>str.upper\<close> on ASCII: the letters
  \<open>a..z\<close> move to \<open>A..Z\<close>, their neighbours \<^verbatim>\<open>0x60\<close> and \<^verbatim>\<open>0x7B\<close> and everything else
  stay; outside ASCII the table of the runtime decides.
\<close>

lemma isspace_iff:
  "isspace c \<longleftrightarrow>
     (9 \<le> c \<and> c \<le> 13) \<or> (28 \<le> c \<and> c \<le> 32) \<or> c = 0x85 \<or> c = 0xA0 \<or> c = 0x1680 \<or>
     (0x2000 \<le> c \<and> c \<le> 0x200A) \<or> c = 0x2028 \<or> c = 0x2029 \<or> c = 0x202F \<or> c = 0x205F \<or>
     c = 0x3000"
  unfolding isspace_def by (simp only: list.set insert_iff empty_iff) arith

lemma upper_char_ascii:
  "c < 128 \<Longrightarrow> upper_char up c = [if 97 \<le> c \<and> c \<le> 122 then c - 32 else c]"
  by (simp add: upper_char_def)

lemma upper_char_non_ascii: "128 \<le> c \<Longrightarrow> upper_char up c = up c"
  by (simp add: upper_char_def)

lemma upper_alphabet:
  "upper up ([0x60] @ text_of ''abcdefghijklmnopqrstuvwxyz'' @ [0x7B, 0x7F] @
             text_of ''AZ@[ 09_='') =
   [0x60] @ text_of ''ABCDEFGHIJKLMNOPQRSTUVWXYZ'' @ [0x7B, 0x7F] @ text_of ''AZ@[ 09_=''"
  by (simp add: upper_def upper_char_def text_of_def)

lemma strip_trimmed: "trimmed s (strip s)"
proof -
  let ?u = "dropWhile isspace s"
  let ?t = "rev (dropWhile isspace (rev ?u))"
  let ?r = "rev (takeWhile isspace (rev ?u))"
  have u: "?u = ?t @ ?r"
    by (metis rev_append rev_rev_ident takeWhile_dropWhile_id)
  have s: "s = takeWhile isspace s @ ?t @ ?r"
    using u by (metis takeWhile_dropWhile_id)
  have l: "list_all isspace (takeWhile isspace s)"
    by (simp add: list_all_iff) (meson set_takeWhileD)
  have r: "list_all isspace ?r"
    by (simp add: list_all_iff) (meson set_takeWhileD)
  have e: "?t = [] \<or> (\<not> isspace (hd ?t) \<and> \<not> isspace (last ?t))"
  proof (cases "?t = []")
    case True then show ?thesis by simp
  next
    case False
    then have ne: "dropWhile isspace (rev ?u) \<noteq> []" by simp
    then have "\<not> isspace (hd (dropWhile isspace (rev ?u)))" by (rule hd_dropWhile)
    then have la: "\<not> isspace (last ?t)" using ne by (simp add: last_rev)
    have "?u \<noteq> []"
    proof
      assume "?u = []"
      then have "?t = []" by (simp only: rev.simps dropWhile.simps)
      with False show False by simp
    qed
    then have "\<not> isspace (hd ?u)" by (rule hd_dropWhile)
    moreover have "hd ?u = hd ?t" using u False by (metis hd_append2)
    ultimately show ?thesis using la by simp
  qed
  show ?thesis unfolding trimmed_def strip_def lstrip_def rstrip_def
    using s l r e by blast
qed

lemma trimmed_unique: assumes "trimmed s t" shows "t = strip s"
proof -
  from assms obtain l r where s: "s = l @ t @ r" and l: "list_all isspace l"
    and r: "list_all isspace r" and e: "t = [] \<or> (\<not> isspace (hd t) \<and> \<not> isspace (last t))"
    unfolding trimmed_def by blast
  show ?thesis
  proof (cases "t = []")
    case True
    then have "list_all isspace s" using s l r by simp
    then have "\<forall>x\<in>set s. isspace x" by (simp only: list_all_iff)
    then have "dropWhile isspace s = []" by (rule dropWhile_eq_Nil_conv [THEN iffD2])
    then have "strip s = []" by (simp only: strip_def lstrip_def rstrip_def dropWhile.simps rev.simps)
    then show ?thesis using True by simp
  next
    case False
    then have h: "\<not> isspace (hd t)" and la: "\<not> isspace (last t)" using e by auto
    have "dropWhile isspace s = dropWhile isspace (t @ r)"
      using s l by (simp add: list_all_iff dropWhile_append2)
    also have "\<dots> = t @ r" using False h by (cases t) auto
    finally have d: "dropWhile isspace s = t @ r" .
    have "dropWhile isspace (rev r @ rev t) = dropWhile isspace (rev t)"
      by (rule dropWhile_append2) (use r in \<open>simp add: list_all_iff\<close>)
    then have "dropWhile isspace (rev (t @ r)) = dropWhile isspace (rev t)"
      by simp
    also have "\<dots> = rev t" using False la by (cases "rev t") (auto simp: last_rev hd_rev)
    finally show ?thesis using d by (simp add: strip_def lstrip_def rstrip_def)
  qed
qed

lemma trimmed_iff: "trimmed s t \<longleftrightarrow> t = strip s"
  using strip_trimmed trimmed_unique by blast

lemma startswith_prefix: "startswith s p \<longleftrightarrow> prefix p s"
  unfolding startswith_def by (metis append_eq_conv_conj prefix_def take_is_prefix)

text \<open>
  Claim C2: the predicate returns false, without raising, on the empty string and on
  \<^verbatim>\<open>None\<close>. On the empty string it does. On \<^verbatim>\<open>None\<close>, which \<^verbatim>\<open>main\<close> passes for a
  connection that has no initial SQL, \<^verbatim>\<open>init_sql.upper()\<close> raises \<^verbatim>\<open>AttributeError\<close> and
  nothing is returned.
\<close>

theorem init_sql_has_query_tag_None:
  "init_sql_has_query_tag up None = Inl AttributeError \<and>
   init_sql_has_query_tag up (Some []) = Inr False"
  by (simp add: eval_str)

text \<open>
  Claim C5: on every string the predicate returns a boolean, and it returns true exactly
  when the upper-cased string, trimmed of leading and trailing whitespace, begins with
  \<^verbatim>\<open>ALTER SESSION SET QUERY_TAG\<close>. It is true on \<^verbatim>\<open>alter session set query_tag = 'x'\<close>,
  also between whitespace (ASCII, and U+00A0 and U+0085 where the uppercase table leaves
  them alone) and with a character that the table maps to an ASCII letter; it is false
  on \<^verbatim>\<open>SELECT 1\<close>, on the literal short of its last letter, on another \<^verbatim>\<open>ALTER\<close>
  statement and on the literal after other text.
\<close>

theorem init_sql_has_query_tag_prefix:
  "(init_sql_has_query_tag up (Some s) = Inr True \<or>
    init_sql_has_query_tag up (Some s) = Inr False) \<and>
   (init_sql_has_query_tag up (Some s) = Inr True \<longleftrightarrow>
      (\<exists>t. trimmed (upper up s) t \<and> prefix (text_of ''ALTER SESSION SET QUERY_TAG'') t)) \<and>
   text_of ''ALTER SESSION SET QUERY_TAG'' =
     [65, 76, 84, 69, 82, 32, 83, 69, 83, 83, 73, 79, 78, 32, 83, 69, 84, 32,
      81, 85, 69, 82, 89, 95, 84, 65, 71] \<and>
   init_sql_has_query_tag up
     (Some (text_of (''alter session set query_tag = '' @ [CHR 0x27] @ ''x'' @ [CHR 0x27]))) =
     Inr True \<and>
   init_sql_has_query_tag up
     (Some ([0x20, 0x09] @
            text_of (''alter session set query_tag = '' @ [CHR 0x27] @ ''x'' @ [CHR 0x27]) @
            [0x0D, 0x0A])) = Inr True \<and>
   (up 0xA0 = [0xA0] \<and> up 0x85 = [0x85] \<and> up 0x17F = [0x53] \<longrightarrow>
      init_sql_has_query_tag up
        (Some ([0xA0] @ text_of ''alter '' @ [0x17F] @ text_of ''ession set query_tag = 1'' @
               [0x85])) = Inr True) \<and>
   init_sql_has_query_tag up (Some (text_of ''SELECT 1'')) = Inr False \<and>
   init_sql_has_query_tag up (Some (text_of ''ALTER SESSION SET QUERY_TA'')) = Inr False \<and>
   init_sql_has_query_tag up (Some (text_of ''ALTER TABLE t DROP COLUMN c'')) = Inr False \<and>
   init_sql_has_query_tag up (Some (text_of ''-- ALTER SESSION SET QUERY_TAG'')) = Inr False"
proof -
  have a: "init_sql_has_query_tag up (Some s) =
           Inr (prefix (text_of ''ALTER SESSION SET QUERY_TAG'') (strip (upper up s)))"
    by (simp add: init_sql_has_query_tag_def startswith_prefix query_tag_text_def)
  have b: "(\<exists>t. trimmed (upper up s) t \<and> prefix (text_of ''ALTER SESSION SET QUERY_TAG'') t) \<longleftrightarrow>
           prefix (text_of ''ALTER SESSION SET QUERY_TAG'') (strip (upper up s))"
    by (simp add: trimmed_iff)
  have l: "text_of ''ALTER SESSION SET QUERY_TAG'' =
           [65, 76, 84, 69, 82, 32, 83, 69, 83, 83, 73, 79, 78, 32, 83, 69, 84, 32,
            81, 85, 69, 82, 89, 95, 84, 65, 71]"
    by (simp add: text_of_def)
  have c: "init_sql_has_query_tag up
             (Some (text_of (''alter session set query_tag = '' @ [CHR 0x27] @ ''x'' @ [CHR 0x27]))) =
           Inr True"
    by (simp add: eval_str)
  have d: "init_sql_has_query_tag up
             (Some ([0x20, 0x09] @
                    text_of (''alter session set query_tag = '' @ [CHR 0x27] @ ''x'' @ [CHR 0x27]) @
                    [0x0D, 0x0A])) = Inr True"
    by (simp add: eval_str)
  have e: "up 0xA0 = [0xA0] \<and> up 0x85 = [0x85] \<and> up 0x17F = [0x53] \<longrightarrow>
           init_sql_has_query_tag up
             (Some ([0xA0] @ text_of ''alter '' @ [0x17F] @ text_of ''ession set query_tag = 1'' @
                    [0x85])) = Inr True"
    by (simp add: eval_str)
  have f: "init_sql_has_query_tag up (Some (text_of ''SELECT 1'')) = Inr False"
    by (simp add: eval_str)
  have g: "init_sql_has_query_tag up (Some (text_of ''ALTER SESSION SET QUERY_TA'')) = Inr False"
    by (simp add: eval_str)
  have h: "init_sql_has_query_tag up (Some (text_of ''ALTER TABLE t DROP COLUMN c'')) = Inr False"
    by (simp add: eval_str)
  have i: "init_sql_has_query_tag up (Some (text_of ''-- ALTER SESSION SET QUERY_TAG'')) = Inr False"
    by (simp add: eval_str)
  have ab: "init_sql_has_query_tag up (Some s) = Inr True \<or>
            init_sql_has_query_tag up (Some s) = Inr False"
    using a by auto
  have ab': "init_sql_has_query_tag up (Some s) = Inr True \<longleftrightarrow>
      (\<exists>t. trimmed (upper up s) t \<and> prefix (text_of ''ALTER SESSION SET QUERY_TAG'') t)"
    using a b by simp
  show ?thesis
    by (intro conjI ab ab' l c d e f g h i)
qed

theorem init_sql_has_query_tag_prefix_witness:
  "unicode_upper demo_api 0xA0 = [0xA0] \<and> unicode_upper demo_api 0x85 = [0x85] \<and>
   unicode_upper demo_api 0x17F = [0x53] \<and>
   init_sql_has_query_tag (unicode_upper demo_api)
     (Some ([0xA0] @ text_of ''alter '' @ [0x17F] @ text_of ''ession set query_tag = 1'' @
            [0x85])) = Inr True \<and>
   init_sql_has_query_tag (unicode_upper demo_api)
     (Some (text_of '' alter session set query_tag = 1'')) = Inr True \<and>
   (\<exists>t. trimmed (upper (unicode_upper demo_api) (text_of '' alter session set query_tag = 1'')) t \<and>
        prefix (text_of ''ALTER SESSION SET QUERY_TAG'') t)"
proof -
  have u: "unicode_upper demo_api 0xA0 = [0xA0] \<and> unicode_upper demo_api 0x85 = [0x85] \<and>
           unicode_upper demo_api 0x17F = [0x53]"
    by (simp add: demo_api_def)
  note t = init_sql_has_query_tag_prefix
             [of "unicode_upper demo_api" "text_of '' alter session set query_tag = 1''"]
  note e = t [THEN conjunct2, THEN conjunct2, THEN conjunct2, THEN conjunct2, THEN conjunct2,
              THEN conjunct1, THEN mp, OF u]
  have v: "init_sql_has_query_tag (unicode_upper demo_api)
             (Some (text_of '' alter session set query_tag = 1'')) = Inr True"
    by (simp add: eval_str)
  note x = t [THEN conjunct2, THEN conjunct1, THEN iffD1, OF v]
  show ?thesis
    by (intro conjI u [THEN conjunct1] u [THEN conjunct2, THEN conjunct1]
          u [THEN conjunct2, THEN conjunct2] e v x)
qed

section \<open>Traces: proofs\<close>

lemma update_calls_append [simp]: "update_calls (xs @ ys) = update_calls xs @ update_calls ys"
  by (simp add: update_calls_def)

lemma download_calls_append [simp]: "download_calls (xs @ ys) = download_calls xs @ download_calls ys"
  by (simp add: download_calls_def)

lemma write_calls_append [simp]: "write_calls (xs @ ys) = write_calls xs @ write_calls ys"
  by (simp add: write_calls_def)

lemma calls_simps [simp]:
  "update_calls [] = []" "download_calls [] = []" "write_calls [] = []"
  "update_calls (e # es) = (case e of EvUpdate wb \<Rightarrow> [wb] | _ \<Rightarrow> []) @ update_calls es"
  "download_calls (e # es) = (case e of EvDownload t i \<Rightarrow> [i] | _ \<Rightarrow> []) @ download_calls es"
  "write_calls (e # es) = (case e of EvWriteConfig c \<Rightarrow> [c] | _ \<Rightarrow> []) @ write_calls es"
  by (simp_all add: update_calls_def download_calls_def write_calls_def)

section \<open>The connection classifier: proofs\<close>

lemma dbclass_inner_loop_filter:
  "dbclass_inner_loop cs target acc = acc @ filter (\<lambda>c. dbclass c = target) cs"
  by (induction cs arbitrary: acc) simp_all

lemma dbclass_outer_loop_filter:
  "dbclass_outer_loop ds target acc =
   acc @ filter (\<lambda>c. dbclass c = target) (concat (map connections ds))"
  by (induction ds arbitrary: acc) (simp_all add: dbclass_inner_loop_filter)

lemma get_connections_workbook:
  assumes "endswith filename ''.twb'' \<or> endswith filename ''.twbx''"
    and "files w filename = Some content"
    and "Workbook_datasources api content = Inr dss"
  shows "get_connections_for_dbclass api filename target w =
         (Inr (filter (\<lambda>c. dbclass c = target) (concat (map connections dss))), w)"
  using assms
  by (simp add: get_connections_for_dbclass_def read_file_def dbclass_outer_loop_filter)

lemma get_connections_datasource:
  assumes "\<not> (endswith filename ''.twb'' \<or> endswith filename ''.twbx'')"
    and "endswith filename ''.tds'' \<or> endswith filename ''.tdsx''"
    and "files w filename = Some content"
    and "Datasource_from_file api content = Inr ds"
  shows "get_connections_for_dbclass api filename target w =
         (Inr (filter (\<lambda>c. dbclass c = target) (connections ds)), w)"
  using assms
  by (simp add: get_connections_for_dbclass_def read_file_def dbclass_outer_loop_filter)

text \<open>
  Claim C7: on a file with a recognized extension that the parser accepts, the classifier
  returns the connections whose \<open>dbclass\<close> is the target, over all datasources of the
  package in the order met (the one datasource of a \<^verbatim>\<open>.tds\<close> or \<^verbatim>\<open>.tdsx\<close> file); with no
  match this is the empty list, a list all the same.
\<close>

theorem get_connections_for_dbclass_recognized:
  "((endswith filename ''.twb'' \<or> endswith filename ''.twbx'') \<and>
    files w filename = Some content \<and> Workbook_datasources api content = Inr dss \<longrightarrow>
      get_connections_for_dbclass api filename target w =
      (Inr (filter (\<lambda>c. dbclass c = target) (concat (map connections dss))), w)) \<and>
   (\<not> (endswith filename ''.twb'' \<or> endswith filename ''.twbx'') \<and>
    (endswith filename ''.tds'' \<or> endswith filename ''.tdsx'') \<and>
    files w filename = Some content \<and> Datasource_from_file api content = Inr ds \<longrightarrow>
      get_connections_for_dbclass api filename target w =
      (Inr (filter (\<lambda>c. dbclass c = target) (connections ds)), w))"
  apply (intro conjI impI)
   apply (elim conjE, rule get_connections_workbook; assumption)
  apply (elim conjE, rule get_connections_datasource; assumption)
  done


theorem get_connections_for_dbclass_recognized_witness:
  "get_connections_for_dbclass demo_api ''content/Sales.twbx'' ''snowflake'' demo_disk =
     (Inr [\<lparr>dbclass = ''snowflake'', dbname = ''RAW'', initial_sql = Some (text_of ''SELECT 1'')\<rparr>,
           \<lparr>dbclass = ''snowflake'', dbname = ''MART'',
            initial_sql = Some (text_of '' alter session set query_tag = 1'')\<rparr>], demo_disk) \<and>
   get_connections_for_dbclass demo_api ''content/Sales.twbx'' ''postgres'' demo_disk =
     (Inr [\<lparr>dbclass = ''postgres'', dbname = ''APP'', initial_sql = None\<rparr>], demo_disk) \<and>
   get_connections_for_dbclass demo_api ''content/Sales.twbx'' ''oracle'' demo_disk =
     (Inr [], demo_disk) \<and>
   get_connections_for_dbclass demo_api ''content/Raw.tds'' ''snowflake'' demo_disk =
     (Inr [\<lparr>dbclass = ''snowflake'', dbname = ''RAW'', initial_sql = Some (text_of ''SELECT 1'')\<rparr>,
           \<lparr>dbclass = ''snowflake'', dbname = ''MART'',
            initial_sql = Some (text_of '' alter session set query_tag = 1'')\<rparr>], demo_disk)"
proof -
  have twbx: "endswith ''content/Sales.twbx'' ''.twb'' \<or> endswith ''content/Sales.twbx'' ''.twbx''"
    by (simp add: endswith_def)
  have tds: "\<not> (endswith ''content/Raw.tds'' ''.twb'' \<or> endswith ''content/Raw.tds'' ''.twbx'') \<and>
             (endswith ''content/Raw.tds'' ''.tds'' \<or> endswith ''content/Raw.tds'' ''.tdsx'')"
    by (simp add: endswith_def)
  have f1: "files demo_disk ''content/Sales.twbx'' = Some 1"
    by (simp add: demo_defs demo_disk_def)
  have f2: "files demo_disk ''content/Raw.tds'' = Some 1"
    by (simp add: demo_defs demo_disk_def)
  have p1: "Workbook_datasources demo_api 1 = Inr (demo_datasources 1)"
    by (simp add: demo_api_def)
  have p2: "Datasource_from_file demo_api 1 = Inr (hd (demo_datasources 1))"
    by (simp add: demo_api_def)
  note a = get_connections_for_dbclass_recognized
             [of "''content/Sales.twbx''" demo_disk 1 demo_api "demo_datasources 1" _
                 "hd (demo_datasources 1)",
              THEN conjunct1, rule_format, OF conjI [OF twbx conjI [OF f1 p1]]]
  note b = get_connections_for_dbclass_recognized
             [of "''content/Raw.tds''" demo_disk 1 demo_api "demo_datasources 1" _
                 "hd (demo_datasources 1)",
              THEN conjunct2, rule_format, OF conjI [OF conjunct1 [OF tds] conjI [OF conjunct2 [OF tds] conjI [OF f2 p2]]]]
  show ?thesis
    using a [of "''snowflake''"] a [of "''postgres''"] a [of "''oracle''"] b [of "''snowflake''"]
    by (simp add: demo_datasources_def)
qed


section \<open>Steps of the run: proofs\<close>

lemma step_refl [simp]: "step w [] w"
  by (simp add: step_def)

lemma step_trans: "step w evs w1 \<Longrightarrow> step w1 evs' w2 \<Longrightarrow> step w (evs @ evs') w2"
  by (simp add: step_def)

lemma step_emit [simp]: "step w [e] (emit e w)"
  by (simp add: step_def emit_def)

lemma quiet_simps [simp]:
  "quiet []" "quiet [EvSignIn]" "quiet [EvQuery fs]" "quiet [EvPopulate i]" "quiet [EvPrint m]"
  "quiet [EvRemove p]"
  by (simp_all add: quiet_def)

lemma quiet_append [simp]: "quiet (xs @ ys) \<longleftrightarrow> quiet xs \<and> quiet ys"
  by (auto simp: quiet_def)

lemma download_resource_ok:
  assumes "download_resource api i ''workbook'' w = (Inr fn, w1)"
  shows "\<exists>content. workbooks_download api i = Inr (fn, content) \<and>
           w1 = (emit (EvDownload ''workbook'' i) w)\<lparr>files := (files w)(fn \<mapsto> content)\<rparr>"
  using assms
  by (auto simp: download_resource_def emit_def Let_def split: sum.splits error.splits)

lemma download_resource_step:
  assumes "download_resource api i ''workbook'' w = (r, w1)"
  shows "\<exists>evs. step w (EvDownload ''workbook'' i # evs) w1 \<and> quiet evs"
  using assms
  by (auto simp: download_resource_def emit_def step_def Let_def split: sum.splits error.splits)

lemma get_connections_step:
  assumes "get_connections_for_dbclass api fn target w = (r, w1)"
  shows "\<exists>evs. step w evs w1 \<and> quiet evs \<and> files w1 = files w"
  using assms
  by (auto simp: get_connections_for_dbclass_def emit_def step_def
           split: sum.splits if_splits)

lemma os_remove_step:
  assumes "os_remove p w = (r, w1)"
  shows "\<exists>evs. step w evs w1 \<and> quiet evs"
  using assms
  by (auto simp: os_remove_def emit_def step_def split: option.splits)

lemma os_remove_present:
  assumes "files w p = Some content"
  shows "os_remove p w = (Inr (), emit (EvRemove p) (w\<lparr>files := (files w)(p := None)\<rparr>))"
  using assms by (simp add: os_remove_def)

lemma add_workbook_tag_step:
  assumes "add_workbook_tag api wb tag w = (r, w1)"
  shows "step w [EvUpdate (wb\<lparr>wb_tags := insert tag (wb_tags wb)\<rparr>)] w1"
  using assms
  by (auto simp: add_workbook_tag_def emit_def step_def Let_def split: option.splits)

lemma query_tag_count_loop_length:
  "query_tag_count_loop up cs k = Inr n \<Longrightarrow>
   n = k + length (filter (\<lambda>c. init_sql_has_query_tag up (initial_sql c) = Inr False) cs)"
proof (induction cs arbitrary: k)
  case Nil
  then show ?case by simp
next
  case (Cons c cs)
  show ?case
  proof (cases "init_sql_has_query_tag up (initial_sql c)")
    case (Inl e)
    with Cons.prems show ?thesis by simp
  next
    case (Inr b)
    show ?thesis
    proof (cases b)
      case True
      with Inr Cons.prems have "query_tag_count_loop up cs k = Inr n" by simp
      from Cons.IH [OF this] show ?thesis using Inr True by simp
    next
      case False
      with Inr Cons.prems have "query_tag_count_loop up cs (k + 1) = Inr n" by simp
      from Cons.IH [OF this] show ?thesis using Inr False by simp
    qed
  qed
qed

section \<open>The per-workbook decision: proofs\<close>

lemma get_connections_unsupported:
  assumes "\<not> endswith filename ''.twb''" and "\<not> endswith filename ''.twbx''"
    and "\<not> endswith filename ''.tds''" and "\<not> endswith filename ''.tdsx''"
  shows "get_connections_for_dbclass api filename target w =
         (Inr [], emit (EvPrint ''Unsupported file type'') w)"
  using assms by (simp add: get_connections_for_dbclass_def)

lemma main_loop_body_unsupported:
  assumes ext: "\<not> endswith filename ''.twb''" "\<not> endswith filename ''.twbx''"
               "\<not> endswith filename ''.tds''" "\<not> endswith filename ''.tdsx''"
    and d: "download_resource api (wb_id wb) ''workbook'' w = (Inr filename, w1)"
  shows "\<exists>w'. main_loop_body api tag wb w = (Inr (), w') \<and>
           events w' = events w @ [EvDownload ''workbook'' (wb_id wb),
                                   EvPrint ''Unsupported file type'', EvRemove filename]"
proof -
  from download_resource_ok [OF d] obtain content where
    w1: "w1 = (emit (EvDownload ''workbook'' (wb_id wb)) w)\<lparr>files := (files w)(filename \<mapsto> content)\<rparr>"
    by blast
  have f: "files (emit (EvPrint ''Unsupported file type'') w1) filename = Some content"
    by (simp add: w1 emit_def)
  show ?thesis
    by (simp add: main_loop_body_def d get_connections_unsupported [OF ext]
          os_remove_present [OF f]) (simp add: w1 emit_def)
qed

text \<open>
  Claim C6: on a path whose extension is none of \<^verbatim>\<open>.twb .twbx .tds .tdsx\<close> the classifier
  returns the empty list without raising and prints \<^verbatim>\<open>Unsupported file type\<close>; the loop
  body that downloaded such a file then completes with the download, the print and the
  removal of the file, and with no call of the update operation.
\<close>

theorem unsupported_file_type:
  "\<not> endswith filename ''.twb'' \<and> \<not> endswith filename ''.twbx'' \<and>
   \<not> endswith filename ''.tds'' \<and> \<not> endswith filename ''.tdsx'' \<longrightarrow>
     get_connections_for_dbclass api filename target w =
       (Inr [], emit (EvPrint ''Unsupported file type'') w) \<and>
     (download_resource api (wb_id wb) ''workbook'' w0 = (Inr filename, w) \<longrightarrow>
        fst (main_loop_body api tag wb w0) = Inr () \<and>
        events (snd (main_loop_body api tag wb w0)) =
          events w0 @ [EvDownload ''workbook'' (wb_id wb),
                       EvPrint ''Unsupported file type'', EvRemove filename] \<and>
        update_calls (events (snd (main_loop_body api tag wb w0))) = update_calls (events w0))"
proof (intro impI conjI; elim conjE)
  assume ext: "\<not> endswith filename ''.twb''" "\<not> endswith filename ''.twbx''"
              "\<not> endswith filename ''.tds''" "\<not> endswith filename ''.tdsx''"
  show "get_connections_for_dbclass api filename target w =
          (Inr [], emit (EvPrint ''Unsupported file type'') w)"
    by (rule get_connections_unsupported [OF ext])
  assume d: "download_resource api (wb_id wb) ''workbook'' w0 = (Inr filename, w)"
  from main_loop_body_unsupported [OF ext d, of tag] obtain w' where
    r: "main_loop_body api tag wb w0 = (Inr (), w')"
    and e: "events w' = events w0 @ [EvDownload ''workbook'' (wb_id wb),
                                     EvPrint ''Unsupported file type'', EvRemove filename]"
    by blast
  show "fst (main_loop_body api tag wb w0) = Inr ()" by (simp add: r)
  show "events (snd (main_loop_body api tag wb w0)) =
          events w0 @ [EvDownload ''workbook'' (wb_id wb),
                       EvPrint ''Unsupported file type'', EvRemove filename]"
    by (simp add: r e)
  show "update_calls (events (snd (main_loop_body api tag wb w0))) = update_calls (events w0)"
    by (simp add: r e)
qed


theorem unsupported_file_type_witness:
  "get_connections_for_dbclass odd_api ''content/w1.zip'' ''snowflake'' demo_world =
     (Inr [], emit (EvPrint ''Unsupported file type'') demo_world) \<and>
   fst (main_loop_body odd_api (Some ''needs-query-tag'') (hd demo_items) demo_world) = Inr () \<and>
   events (snd (main_loop_body odd_api (Some ''needs-query-tag'') (hd demo_items) demo_world)) =
     [EvDownload ''workbook'' ''w1'', EvPrint ''Unsupported file type'',
      EvRemove ''content/w1.zip''] \<and>
   update_calls
     (events (snd (main_loop_body odd_api (Some ''needs-query-tag'') (hd demo_items) demo_world))) = []"
proof -
  let ?w = "snd (download_resource odd_api (wb_id (hd demo_items)) ''workbook'' demo_world)"
  have ext: "\<not> endswith ''content/w1.zip'' ''.twb'' \<and> \<not> endswith ''content/w1.zip'' ''.twbx'' \<and>
             \<not> endswith ''content/w1.zip'' ''.tds'' \<and> \<not> endswith ''content/w1.zip'' ''.tdsx''"
    by (simp add: endswith_def)
  have d: "download_resource odd_api (wb_id (hd demo_items)) ''workbook'' demo_world =
           (Inr ''content/w1.zip'', ?w)"
    by (simp add: download_resource_def demo_defs odd_api_def emit_def Let_def)
  have e: "events demo_world = []"
    by (simp add: demo_world_def)
  from unsupported_file_type
         [of "''content/w1.zip''" odd_api "''snowflake''" demo_world "hd demo_items" demo_world
             "Some ''needs-query-tag''", rule_format, OF ext]
  have a: "get_connections_for_dbclass odd_api ''content/w1.zip'' ''snowflake'' demo_world =
             (Inr [], emit (EvPrint ''Unsupported file type'') demo_world)"
    by blast
  from unsupported_file_type
         [of "''content/w1.zip''" odd_api "''snowflake''" ?w "hd demo_items" demo_world
             "Some ''needs-query-tag''", rule_format, OF ext, THEN conjunct2, rule_format, OF d]
  show ?thesis using a e by (simp add: demo_items_def)
qed

lemma main_loop_body_download_fail:
  assumes "download_resource api (wb_id wb) ''workbook'' w = (Inl e, w1)"
  shows "main_loop_body api tag wb w = (Inl e, w1)"
  using assms by (simp add: main_loop_body_def)

lemma main_loop_body_classify_fail:
  assumes "download_resource api (wb_id wb) ''workbook'' w = (Inr fn, w1)"
    and "get_connections_for_dbclass api fn ''snowflake'' w1 = (Inl e, w2)"
  shows "main_loop_body api tag wb w = (Inl e, w2)"
  using assms by (simp add: main_loop_body_def)

lemma main_loop_body_count_fail:
  assumes "download_resource api (wb_id wb) ''workbook'' w = (Inr fn, w1)"
    and "get_connections_for_dbclass api fn ''snowflake'' w1 = (Inr cs, w2)"
    and "query_tag_count_loop (unicode_upper api) cs 0 = Inl e"
  shows "main_loop_body api tag wb w = (Inl e, w2)"
  using assms by (simp add: main_loop_body_def)

lemma main_loop_body_counted:
  assumes "download_resource api (wb_id wb) ''workbook'' w = (Inr fn, w1)"
    and "get_connections_for_dbclass api fn ''snowflake'' w1 = (Inr cs, w2)"
    and "query_tag_count_loop (unicode_upper api) cs 0 = Inr n"
  shows "main_loop_body api tag wb w =
         (if 0 < n then
            (case add_workbook_tag api wb tag w2 of
               (Inl e, w3) \<Rightarrow> (Inl e, w3)
             | (Inr updated_wb_tags, w3) \<Rightarrow> os_remove fn w3)
          else os_remove fn w2)"
  using assms by (simp add: main_loop_body_def)

text \<open>
  What one pass of the loop body adds to the trace, whatever its outcome: the download of
  this workbook, no checkpoint write, and the update of this workbook exactly when the
  count was reached and is positive.
\<close>

lemma main_loop_body_trace:
  assumes b: "main_loop_body api tag wb w = (r, w')"
  shows "\<exists>evs. step w evs w' \<and> download_calls evs = [wb_id wb] \<and> write_calls evs = [] \<and>
           update_calls evs =
             (if \<exists>fn w1 cs w2 n.
                   download_resource api (wb_id wb) ''workbook'' w = (Inr fn, w1) \<and>
                   get_connections_for_dbclass api fn ''snowflake'' w1 = (Inr cs, w2) \<and>
                   query_tag_count_loop (unicode_upper api) cs 0 = Inr n \<and> 0 < n
              then [wb\<lparr>wb_tags := insert tag (wb_tags wb)\<rparr>] else [])"
proof -
  obtain r1 w1 where d: "download_resource api (wb_id wb) ''workbook'' w = (r1, w1)"
    by (cases "download_resource api (wb_id wb) ''workbook'' w")
  from download_resource_step [OF d] obtain e1 where
    s1: "step w (EvDownload ''workbook'' (wb_id wb) # e1) w1" and q1: "quiet e1"
    by blast
  show ?thesis
  proof (cases r1)
    case (Inl e)
    with d b have "w' = w1" by (simp add: main_loop_body_download_fail)
    with s1 q1 d Inl show ?thesis
      by (intro exI [of _ "EvDownload ''workbook'' (wb_id wb) # e1"]) (simp add: quiet_def)
  next
    case fn: (Inr fn)
    obtain r2 w2 where g: "get_connections_for_dbclass api fn ''snowflake'' w1 = (r2, w2)"
      by (cases "get_connections_for_dbclass api fn ''snowflake'' w1")
    from get_connections_step [OF g] obtain e2 where s2: "step w1 e2 w2" and q2: "quiet e2"
      by blast
    note s12 = step_trans [OF s1 s2]
    show ?thesis
    proof (cases r2)
      case (Inl e)
      with d fn g b have "w' = w2" by (simp add: main_loop_body_classify_fail)
      with s12 q1 q2 d fn g Inl show ?thesis
        by (intro exI [of _ "(EvDownload ''workbook'' (wb_id wb) # e1) @ e2"])
           (simp add: quiet_def)
    next
      case cs: (Inr cs)
      show ?thesis
      proof (cases "query_tag_count_loop (unicode_upper api) cs 0")
        case (Inl e)
        with d fn g cs b have "w' = w2" by (simp add: main_loop_body_count_fail)
        with s12 q1 q2 d fn g cs Inl show ?thesis
          by (intro exI [of _ "(EvDownload ''workbook'' (wb_id wb) # e1) @ e2"])
             (simp add: quiet_def)
      next
        case n: (Inr n)
        note body = main_loop_body_counted [OF d [unfolded fn] g [unfolded cs] n, of tag]
        show ?thesis
        proof (cases "0 < n")
          case False
          with body b have "os_remove fn w2 = (r, w')" by simp
          from os_remove_step [OF this] obtain e3 where s3: "step w2 e3 w'" and q3: "quiet e3"
            by blast
          from step_trans [OF s12 s3] q1 q2 q3 d fn g cs n False show ?thesis
            by (intro exI [of _ "((EvDownload ''workbook'' (wb_id wb) # e1) @ e2) @ e3"])
               (simp add: quiet_def)
        next
          case True
          obtain r3 w3 where t: "add_workbook_tag api wb tag w2 = (r3, w3)"
            by (cases "add_workbook_tag api wb tag w2")
          note s3 = step_trans [OF s12 add_workbook_tag_step [OF t]]
          show ?thesis
          proof (cases r3)
            case (Inl e)
            with body b True t have "w' = w3" by simp
            with s3 q1 q2 d fn g cs n True show ?thesis
              by (intro exI [of _ "((EvDownload ''workbook'' (wb_id wb) # e1) @ e2) @
                                   [EvUpdate (wb\<lparr>wb_tags := insert tag (wb_tags wb)\<rparr>)]"])
                 (auto simp: quiet_def)
          next
            case (Inr tags)
            with body b True t have "os_remove fn w3 = (r, w')" by simp
            from os_remove_step [OF this] obtain e4 where s4: "step w3 e4 w'" and q4: "quiet e4"
              by blast
            from step_trans [OF s3 s4] q1 q2 q4 d fn g cs n True show ?thesis
              by (intro exI [of _ "(((EvDownload ''workbook'' (wb_id wb) # e1) @ e2) @
                                   [EvUpdate (wb\<lparr>wb_tags := insert tag (wb_tags wb)\<rparr>)]) @ e4"])
                 (auto simp: quiet_def)
          qed
        qed
      qed
    qed
  qed
qed


text \<open>
  The update call of one pass of the loop body: when the count loop returns \<open>n\<close>, which
  is then the number of classified connections whose initial SQL fails the predicate, the
  update operation is called with the tagged workbook if \<open>0 < n\<close> and not called if
  \<open>n = 0\<close>; and it is called only when the loop returned a positive count.
\<close>

lemma main_loop_body_updates:
  "(download_resource api (wb_id wb) ''workbook'' w = (Inr fn, w1) \<and>
    get_connections_for_dbclass api fn ''snowflake'' w1 = (Inr cs, w2) \<and>
    query_tag_count_loop (unicode_upper api) cs 0 = Inr n \<longrightarrow>
      n = length (filter (\<lambda>c. init_sql_has_query_tag (unicode_upper api) (initial_sql c) = Inr False) cs) \<and>
      update_calls (events (snd (main_loop_body api tag wb w))) =
        update_calls (events w) @
        (if 0 < n then [wb\<lparr>wb_tags := insert tag (wb_tags wb)\<rparr>] else [])) \<and>
   (update_calls (events (snd (main_loop_body api tag wb w))) \<noteq> update_calls (events w) \<longrightarrow>
      (\<exists>fn w1 cs w2 n.
          download_resource api (wb_id wb) ''workbook'' w = (Inr fn, w1) \<and>
          get_connections_for_dbclass api fn ''snowflake'' w1 = (Inr cs, w2) \<and>
          query_tag_count_loop (unicode_upper api) cs 0 = Inr n \<and> 0 < n))"
proof -
  let ?C = "\<exists>fn w1 cs w2 n.
              download_resource api (wb_id wb) ''workbook'' w = (Inr fn, w1) \<and>
              get_connections_for_dbclass api fn ''snowflake'' w1 = (Inr cs, w2) \<and>
              query_tag_count_loop (unicode_upper api) cs 0 = Inr n \<and> 0 < n"
  have "main_loop_body api tag wb w =
          (fst (main_loop_body api tag wb w), snd (main_loop_body api tag wb w))"
    by simp
  from main_loop_body_trace [OF this] obtain evs where
    s: "step w evs (snd (main_loop_body api tag wb w))"
    and u: "update_calls evs = (if ?C then [wb\<lparr>wb_tags := insert tag (wb_tags wb)\<rparr>] else [])"
    by blast
  have ev: "update_calls (events (snd (main_loop_body api tag wb w))) =
            update_calls (events w) @ update_calls evs"
    using s by (simp add: step_def)
  have second: "update_calls (events (snd (main_loop_body api tag wb w))) \<noteq> update_calls (events w)
                \<longrightarrow> ?C"
    using ev u by (auto split: if_splits)
  have first: "n = length (filter (\<lambda>c. init_sql_has_query_tag (unicode_upper api) (initial_sql c) = Inr False) cs) \<and>
               update_calls (events (snd (main_loop_body api tag wb w))) =
                 update_calls (events w) @
                 (if 0 < n then [wb\<lparr>wb_tags := insert tag (wb_tags wb)\<rparr>] else [])"
    if d: "download_resource api (wb_id wb) ''workbook'' w = (Inr fn, w1)"
      and g: "get_connections_for_dbclass api fn ''snowflake'' w1 = (Inr cs, w2)"
      and c: "query_tag_count_loop (unicode_upper api) cs 0 = Inr n"
  proof -
    have "?C \<longleftrightarrow> 0 < n" using d g c by auto
    then show ?thesis using ev u query_tag_count_loop_length [OF c] by simp
  qed
  show ?thesis using first second by blast
qed

section \<open>The outcome of one workbook: proofs\<close>





text \<open>
  Claim C1: the tag is applied exactly when the count of non-compliant warehouse
  connections of the workbook is positive. Here the file of workbook \<open>w1\<close> has two
  Snowflake connections: the initial SQL of the first is \<^verbatim>\<open>SELECT 1\<close>, which fails the
  predicate, and the second has no initial SQL. The loop counts the first, then the
  predicate raises \<^verbatim>\<open>AttributeError\<close> on the second: the update operation is not called
  for the workbook, and the run ends there, with no update and no checkpoint written.
\<close>

theorem untagged_without_initial_sql:
  "fst (get_connections_for_dbclass gap_api ''content/Sales.twbx'' ''snowflake''
          (snd (download_resource gap_api ''w1'' ''workbook'' demo_world))) = Inr gap_connections \<and>
   init_sql_has_query_tag (unicode_upper gap_api) (initial_sql (gap_connections ! 0)) = Inr False \<and>
   initial_sql (gap_connections ! 1) = None \<and>
   query_tag_count_loop (unicode_upper gap_api) gap_connections 0 = Inl AttributeError \<and>
   fst (main_loop_body gap_api (Some ''needs-query-tag'') (demo_filtered ! 0) demo_world) =
     Inl AttributeError \<and>
   update_calls
     (events (snd (main_loop_body gap_api (Some ''needs-query-tag'') (demo_filtered ! 0) demo_world))) =
     [] \<and>
   fst (main gap_api demo_world) = Inl AttributeError \<and>
   update_calls (events (snd (main gap_api demo_world))) = [] \<and>
   write_calls (events (snd (main gap_api demo_world))) = []"
proof -
  have a: "fst (get_connections_for_dbclass gap_api ''content/Sales.twbx'' ''snowflake''
             (snd (download_resource gap_api ''w1'' ''workbook'' demo_world))) = Inr gap_connections"
    by (simp add: run_defs demo_defs gap_api_def gap_connections_def)
  have b: "init_sql_has_query_tag (unicode_upper gap_api) (initial_sql (gap_connections ! 0)) =
           Inr False"
    by (simp add: gap_connections_def eval_str)
  have c: "initial_sql (gap_connections ! 1) = None"
    by (simp add: gap_connections_def)
  have d: "query_tag_count_loop (unicode_upper gap_api) gap_connections 0 = Inl AttributeError"
    by (simp add: gap_connections_def eval_str)
  have e: "fst (main_loop_body gap_api (Some ''needs-query-tag'') (demo_filtered ! 0) demo_world) =
           Inl AttributeError"
    by (simp add: run_defs demo_defs gap_api_def gap_connections_def eval_str)
  have f: "update_calls
             (events (snd (main_loop_body gap_api (Some ''needs-query-tag'') (demo_filtered ! 0)
                             demo_world))) = []"
    by (simp add: run_defs demo_defs gap_api_def gap_connections_def eval_str)
  have g: "fst (main gap_api demo_world) = Inl AttributeError"
    by (simp add: run_defs demo_defs gap_api_def gap_connections_def eval_str)
  have h: "update_calls (events (snd (main gap_api demo_world))) = []"
    by (simp add: run_defs demo_defs gap_api_def gap_connections_def eval_str)
  have i: "write_calls (events (snd (main gap_api demo_world))) = []"
    by (simp add: run_defs demo_defs gap_api_def gap_connections_def eval_str)
  show ?thesis
    by (intro conjI a b c d e f g h i)
qed

section \<open>The live-connection filter: proofs\<close>

lemma snowflake_inner_loop_eq:
  "snowflake_inner_loop wb cs acc =
   (if \<exists>c\<in>set cs. connection_type c = ''snowflake'' then acc @ [wb] else acc)"
  by (induction cs) simp_all

lemma wb_id_populated [simp]: "wb_id (populated api wb) = wb_id wb"
  by (simp add: populated_def split: sum.splits)

lemma snowflake_outer_loop_result:
  "snowflake_outer_loop api items acc w = (Inr out, w') \<Longrightarrow>
   out = acc @ filter (\<lambda>wb. \<exists>c\<in>set (wb_connections wb). connection_type c = ''snowflake'')
                  (map (populated api) items) \<and>
   (\<forall>wb\<in>set items. \<exists>cs. populate_connections api wb = Inr cs)"
proof (induction items arbitrary: acc w)
  case Nil
  then show ?case by simp
next
  case (Cons wb rest)
  show ?case
  proof (cases "populate_connections api wb")
    case (Inl e)
    with Cons.prems show ?thesis by simp
  next
    case (Inr cs)
    with Cons.prems have
      "snowflake_outer_loop api rest
         (snowflake_inner_loop (wb\<lparr>wb_connections := cs\<rparr>) cs acc)
         (emit (EvPopulate (wb_id wb)) w) = (Inr out, w')"
      by simp
    from Cons.IH [OF this] show ?thesis
      using Inr by (simp add: snowflake_inner_loop_eq populated_def)
  qed
qed

lemma snowflake_outer_loop_step:
  "snowflake_outer_loop api items acc w = (r, w') \<Longrightarrow> \<exists>evs. step w evs w' \<and> quiet evs"
proof (induction items arbitrary: acc w)
  case Nil
  then show ?case by (auto intro: exI [of _ "[]"])
next
  case (Cons wb rest)
  show ?case
  proof (cases "populate_connections api wb")
    case (Inl e)
    with Cons.prems have "w' = emit (EvPopulate (wb_id wb)) w" by simp
    then show ?thesis by (auto intro!: exI [of _ "[EvPopulate (wb_id wb)]"])
  next
    case (Inr cs)
    with Cons.prems have
      "snowflake_outer_loop api rest
         (snowflake_inner_loop (wb\<lparr>wb_connections := cs\<rparr>) cs acc)
         (emit (EvPopulate (wb_id wb)) w) = (r, w')"
      by simp
    from Cons.IH [OF this] obtain evs where
      s: "step (emit (EvPopulate (wb_id wb)) w) evs w'" and q: "quiet evs"
      by blast
    from step_trans [OF step_emit s] q show ?thesis
      by (auto simp: quiet_def intro!: exI [of _ "[EvPopulate (wb_id wb)] @ evs"])
  qed
qed

lemma filter_wbs_result:
  assumes "filter_wbs_with_snowflake_connections api workbooks w = (Inr out, w')"
  shows "out = filter (\<lambda>wb. \<exists>c\<in>set (wb_connections wb). connection_type c = ''snowflake'')
                 (map (populated api) (fst (workbooks_get api workbooks))) \<and>
         (\<forall>wb\<in>set (fst (workbooks_get api workbooks)). \<exists>cs. populate_connections api wb = Inr cs)"
proof -
  obtain items fault where g: "workbooks_get api workbooks = (items, fault)"
    by (cases "workbooks_get api workbooks")
  obtain r1 w1 where l: "snowflake_outer_loop api items [] (emit (EvQuery workbooks) w) = (r1, w1)"
    by (cases "snowflake_outer_loop api items [] (emit (EvQuery workbooks) w)")
  from assms g l have "r1 = Inr out"
    by (simp add: filter_wbs_with_snowflake_connections_def split: sum.splits option.splits)
  with l snowflake_outer_loop_result [of api items "[]" _ out w1] g show ?thesis
    by simp
qed

lemma filter_wbs_step:
  assumes "filter_wbs_with_snowflake_connections api workbooks w = (r, w')"
  shows "\<exists>evs. step w (EvQuery workbooks # evs) w' \<and> quiet evs"
proof -
  obtain items fault where g: "workbooks_get api workbooks = (items, fault)"
    by (cases "workbooks_get api workbooks")
  obtain r1 w1 where l: "snowflake_outer_loop api items [] (emit (EvQuery workbooks) w) = (r1, w1)"
    by (cases "snowflake_outer_loop api items [] (emit (EvQuery workbooks) w)")
  from assms g l have "w' = w1"
    by (simp add: filter_wbs_with_snowflake_connections_def split: sum.splits option.splits)
  with snowflake_outer_loop_step [OF l] obtain evs where
    s: "step (emit (EvQuery workbooks) w) evs w'" and q: "quiet evs"
    by blast
  from step_trans [OF step_emit s] q show ?thesis
    by auto
qed

text \<open>
  Claim C9: when the filter returns, its output is the listed workbooks, each with the
  connections the catalog answered for it, that have at least one live connection of
  type \<^verbatim>\<open>snowflake\<close>, in the order of the listing; a listed workbook is in the output
  if and only if one of its live connections has that type.
\<close>

theorem filter_wbs_iff_snowflake:
  "filter_wbs_with_snowflake_connections api workbooks w = (Inr out, w') \<longrightarrow>
     out = filter (\<lambda>wb. \<exists>c\<in>set (wb_connections wb). connection_type c = ''snowflake'')
             (map (populated api) (fst (workbooks_get api workbooks))) \<and>
     (\<forall>wb\<in>set (fst (workbooks_get api workbooks)).
        \<exists>cs. populate_connections api wb = Inr cs \<and>
             (wb\<lparr>wb_connections := cs\<rparr> \<in> set out \<longleftrightarrow>
              (\<exists>c\<in>set cs. connection_type c = ''snowflake'')))"
proof
  assume a: "filter_wbs_with_snowflake_connections api workbooks w = (Inr out, w')"
  note r = filter_wbs_result [OF a]
  have "\<exists>cs. populate_connections api wb = Inr cs \<and>
             (wb\<lparr>wb_connections := cs\<rparr> \<in> set out \<longleftrightarrow>
              (\<exists>c\<in>set cs. connection_type c = ''snowflake''))"
    if m: "wb \<in> set (fst (workbooks_get api workbooks))" for wb
  proof -
    from r m obtain cs where cs: "populate_connections api wb = Inr cs" by blast
    then have p: "populated api wb = wb\<lparr>wb_connections := cs\<rparr>"
      by (simp add: populated_def)
    have "wb\<lparr>wb_connections := cs\<rparr> \<in> set out \<longleftrightarrow>
          (\<exists>c\<in>set cs. connection_type c = ''snowflake'')"
    proof
      assume "wb\<lparr>wb_connections := cs\<rparr> \<in> set out"
      with r have "\<exists>c\<in>set (wb_connections (wb\<lparr>wb_connections := cs\<rparr>)).
                     connection_type c = ''snowflake''"
        by simp
      then show "\<exists>c\<in>set cs. connection_type c = ''snowflake''" by simp
    next
      assume "\<exists>c\<in>set cs. connection_type c = ''snowflake''"
      moreover have "populated api wb \<in> set (map (populated api) (fst (workbooks_get api workbooks)))"
        using m by simp
      ultimately show "wb\<lparr>wb_connections := cs\<rparr> \<in> set out"
        using r p by simp
    qed
    with cs show ?thesis by blast
  qed
  with r show "out = filter (\<lambda>wb. \<exists>c\<in>set (wb_connections wb). connection_type c = ''snowflake'')
             (map (populated api) (fst (workbooks_get api workbooks))) \<and>
     (\<forall>wb\<in>set (fst (workbooks_get api workbooks)).
        \<exists>cs. populate_connections api wb = Inr cs \<and>
             (wb\<lparr>wb_connections := cs\<rparr> \<in> set out \<longleftrightarrow>
              (\<exists>c\<in>set cs. connection_type c = ''snowflake'')))"
    by blast
qed


theorem filter_wbs_iff_snowflake_witness:
  "filter_wbs_with_snowflake_connections demo_api [] demo_world =
     (Inr demo_filtered, snd (filter_wbs_with_snowflake_connections demo_api [] demo_world)) \<and>
   demo_filtered =
     filter (\<lambda>wb. \<exists>c\<in>set (wb_connections wb). connection_type c = ''snowflake'')
       (map (populated demo_api) (fst (workbooks_get demo_api []))) \<and>
   (\<exists>cs. populate_connections demo_api (demo_items ! 0) = Inr cs \<and>
         ((demo_items ! 0)\<lparr>wb_connections := cs\<rparr> \<in> set demo_filtered \<longleftrightarrow>
          (\<exists>c\<in>set cs. connection_type c = ''snowflake''))) \<and>
   (\<exists>cs. populate_connections demo_api (demo_items ! 1) = Inr cs \<and>
         ((demo_items ! 1)\<lparr>wb_connections := cs\<rparr> \<in> set demo_filtered \<longleftrightarrow>
          (\<exists>c\<in>set cs. connection_type c = ''snowflake'')))"
proof -
  let ?w = "snd (filter_wbs_with_snowflake_connections demo_api [] demo_world)"
  have "fst (filter_wbs_with_snowflake_connections demo_api [] demo_world) = Inr demo_filtered"
    by (simp add: filter_wbs_with_snowflake_connections_def demo_defs demo_filtered_def emit_def)
  then have h: "filter_wbs_with_snowflake_connections demo_api [] demo_world =
                (Inr demo_filtered, ?w)"
    by (simp add: prod_eq_iff)
  have m0: "demo_items ! 0 \<in> set (fst (workbooks_get demo_api []))"
    by (simp add: demo_api_def demo_items_def)
  have m1: "demo_items ! 1 \<in> set (fst (workbooks_get demo_api []))"
    by (simp add: demo_api_def demo_items_def)
  note c = filter_wbs_iff_snowflake [of demo_api "[]" demo_world demo_filtered ?w, THEN mp, OF h]
  show ?thesis
    by (intro conjI h c [THEN conjunct1] c [THEN conjunct2, THEN bspec, OF m0]
          c [THEN conjunct2, THEN bspec, OF m1])
qed

section \<open>The run: proofs\<close>

lemma main_loop_trace:
  "main_loop api tag wbs w = (r, w') \<Longrightarrow>
   \<exists>evs k. step w evs w' \<and> write_calls evs = [] \<and> k \<le> length wbs \<and>
     download_calls evs = map wb_id (take k wbs) \<and>
     subseq (map wb_id (update_calls evs)) (map wb_id (take k wbs)) \<and>
     (r = Inr () \<longrightarrow> k = length wbs)"
proof (induction wbs arbitrary: w)
  case Nil
  then show ?case by (auto intro!: exI [of _ "[]"])
next
  case (Cons wb rest)
  obtain rb wb' where b: "main_loop_body api tag wb w = (rb, wb')"
    by (cases "main_loop_body api tag wb w")
  from main_loop_body_trace [OF b] obtain eb where
    sb: "step w eb wb'" and db: "download_calls eb = [wb_id wb]" and wr: "write_calls eb = []"
    and ub: "update_calls eb = [] \<or> update_calls eb = [wb\<lparr>wb_tags := insert tag (wb_tags wb)\<rparr>]"
    by (metis (no_types, lifting))
  show ?case
  proof (cases rb)
    case (Inl e)
    with Cons.prems b have "r = Inl e" "w' = wb'" by simp_all
    with sb db wr ub show ?thesis
      by (intro exI [of _ eb] exI [of _ "Suc 0"]) auto
  next
    case (Inr u)
    with Cons.prems b have "main_loop api tag rest wb' = (r, w')" by simp
    from Cons.IH [OF this] obtain er k where
      sr: "step wb' er w'" and wrr: "write_calls er = []" and k: "k \<le> length rest"
      and dr: "download_calls er = map wb_id (take k rest)"
      and ur: "subseq (map wb_id (update_calls er)) (map wb_id (take k rest))"
      and fin: "r = Inr () \<longrightarrow> k = length rest"
      by blast
    from step_trans [OF sb sr] db wr ub wrr k dr ur fin show ?thesis
      by (intro exI [of _ "eb @ er"] exI [of _ "Suc k"]) auto
  qed
qed

lemma get_workbooks_from_config_cong:
  "config_file w1 = config_file w \<Longrightarrow> get_workbooks_from_config w1 = get_workbooks_from_config w"
  by (simp add: get_workbooks_from_config_def)


lemma create_tableau_session_step:
  assumes "create_tableau_session api a b c d w = (r, w1)"
  shows "step w [EvSignIn] w1"
  using assms by (auto simp: create_tableau_session_def split: option.splits)

lemma update_config_fail:
  assumes "update_workbook_config_with_date_checkpoint w = (Inl e, w1)"
  shows "w1 = w"
  using assms
  by (auto simp: update_workbook_config_with_date_checkpoint_def Let_def split: sum.splits)

lemma update_config_ok:
  assumes "update_workbook_config_with_date_checkpoint w = (Inr s, w1)"
  shows "\<exists>c0 cfg. load_config (config_file w) = Inr c0 \<and>
           py_setitem c0 ''date_checkpoint'' (JStr (strftime_checkpoint (clock w))) = Inr cfg \<and>
           s = strftime_checkpoint (clock w) \<and>
           w1 = emit (EvWriteConfig cfg) (w\<lparr>config_file := Parsed cfg\<rparr>)"
  using assms
  by (auto simp: update_workbook_config_with_date_checkpoint_def Let_def split: sum.splits)

text \<open>
  The stages of \<open>main\<close>: the world after the directory check, and what each outcome of
  the run implies for the trace and the checkpoint file.
\<close>

lemma main_run:
  assumes m: "main api w = (r, w')"
  shows "\<exists>evs. events w' = events w @ evs \<and> clock w' = clock w \<and>
           (\<forall>e. r = Inl e \<longrightarrow> write_calls evs = [] \<and> config_file w' = config_file w) \<and>
           (r = Inr () \<longrightarrow>
              (\<exists>pre c0 cfg fs.
                  evs = pre @ [EvWriteConfig cfg] \<and> write_calls pre = [] \<and>
                  get_workbooks_from_config w = Inr fs \<and>
                  download_calls pre =
                    map wb_id
                      (filter (\<lambda>wb. \<exists>c\<in>set (wb_connections wb). connection_type c = ''snowflake'')
                         (map (populated api) (fst (workbooks_get api fs)))) \<and>
                  load_config (config_file w) = Inr c0 \<and>
                  py_setitem c0 ''date_checkpoint'' (JStr (strftime_checkpoint (clock w))) = Inr cfg \<and>
                  config_file w' = Parsed cfg)) \<and>
           ((\<forall>fs. distinct (map wb_id (fst (workbooks_get api fs)))) \<longrightarrow>
              distinct (download_calls evs) \<and> distinct (map wb_id (update_calls evs)))"
proof -
  define w0 where "w0 = (if \<not> content_dir w then w\<lparr>content_dir := True\<rparr> else w)"
  have s0: "step w [] w0" by (simp add: w0_def step_def)
  have env: "environ w0 = environ w" by (simp add: w0_def)
  obtain r1 w1 where c: "create_tableau_session api (environ w0 ''PAT_NAME'')
      (environ w0 ''PAT_VALUE'') (environ w0 ''SERVER_ADDRESS'') (environ w0 ''SITE_ID'') w0 = (r1, w1)"
    by (cases "create_tableau_session api (environ w0 ''PAT_NAME'')
      (environ w0 ''PAT_VALUE'') (environ w0 ''SERVER_ADDRESS'') (environ w0 ''SITE_ID'') w0")
  note s1 = step_trans [OF s0 create_tableau_session_step [OF c]]
  have cfg1: "get_workbooks_from_config w1 = get_workbooks_from_config w"
    using s1 by (intro get_workbooks_from_config_cong) (simp add: step_def)
  note m' = m [unfolded main_def Let_def, folded w0_def, unfolded c]
  show ?thesis
  proof (cases r1)
    case (Inl e)
    with m' have "r = Inl e" "w' = w1" by simp_all
    with s1 show ?thesis
      by (intro exI [of _ "[] @ [EvSignIn]"]) (simp add: step_def)
  next
    case server: (Inr server)
    show ?thesis
    proof (cases "get_workbooks_from_config w1")
      case (Inl e)
      with m' server have "r = Inl e" "w' = w1" by simp_all
      with s1 show ?thesis
        by (intro exI [of _ "[] @ [EvSignIn]"]) (simp add: step_def)
    next
      case fs: (Inr fs)
      obtain r2 w2 where f: "filter_wbs_with_snowflake_connections api fs w1 = (r2, w2)"
        by (cases "filter_wbs_with_snowflake_connections api fs w1")
      from filter_wbs_step [OF f] obtain e2 where
        s2': "step w1 (EvQuery fs # e2) w2" and q2: "quiet e2"
        by blast
      note s2 = step_trans [OF s1 s2']
      show ?thesis
      proof (cases r2)
        case (Inl e)
        with m' server fs f have "r = Inl e" "w' = w2" by simp_all
        with s2 q2 show ?thesis
          by (intro exI [of _ "([] @ [EvSignIn]) @ EvQuery fs # e2"]) (simp add: step_def quiet_def)
      next
        case out: (Inr out)
        note res = filter_wbs_result [OF f [unfolded out]]
        obtain r3 w3 where l: "main_loop api (environ w0 ''TABLEAU_TAG'') out w2 = (r3, w3)"
          by (cases "main_loop api (environ w0 ''TABLEAU_TAG'') out w2")
        from main_loop_trace [OF l] obtain e3 k where
          s3': "step w2 e3 w3" and wr3: "write_calls e3 = []" and k: "k \<le> length out"
          and d3: "download_calls e3 = map wb_id (take k out)"
          and u3: "subseq (map wb_id (update_calls e3)) (map wb_id (take k out))"
          and fin: "r3 = Inr () \<longrightarrow> k = length out"
          by blast
        note s3 = step_trans [OF s2 s3']
        let ?pre = "(([] @ [EvSignIn]) @ EvQuery fs # e2) @ e3"
        have pre_w: "write_calls ?pre = []" using q2 wr3 by (simp add: quiet_def)
        have pre_d: "download_calls ?pre = map wb_id (take k out)"
          using q2 d3 by (simp add: quiet_def)
        have pre_u: "update_calls ?pre = update_calls e3"
          using q2 by (simp add: quiet_def)
        have dist: "distinct (download_calls ?pre) \<and> distinct (map wb_id (update_calls ?pre))"
          if a: "\<forall>fs. distinct (map wb_id (fst (workbooks_get api fs)))"
        proof -
          from a have "distinct (map wb_id (map (populated api) (fst (workbooks_get api fs))))"
            by (simp add: comp_def)
          then have "distinct (map wb_id out)"
            unfolding res [THEN conjunct1] by (rule distinct_map_filter)
          then have "distinct (take k (map wb_id out))"
            by (rule distinct_take)
          then have t: "distinct (map wb_id (take k out))"
            by (simp only: take_map)
          have "map wb_id (update_calls e3) \<in> set (subseqs (map wb_id (take k out)))"
            using u3 by (simp only: in_set_subseqs)
          then have "distinct (map wb_id (update_calls e3))"
            using t by (rule subseqs_distinctD)
          with t pre_d pre_u show ?thesis by simp
        qed
        show ?thesis
        proof (cases r3)
          case (Inl e)
          with m' server fs f out l have "r = Inl e" "w' = w3" by simp_all
          with s3 pre_w dist show ?thesis
            by (intro exI [of _ ?pre]) (simp add: step_def)
        next
          case (Inr u)
          with fin have kk: "k = length out" by simp
          obtain r4 w4 where up: "update_workbook_config_with_date_checkpoint w3 = (r4, w4)"
            by (cases "update_workbook_config_with_date_checkpoint w3")
          show ?thesis
          proof (cases r4)
            case (Inl e)
            with m' server fs f out l Inr up have "r = Inl e" "w' = w4" by simp_all
            moreover from up Inl have "w4 = w3" by (simp add: update_config_fail)
            ultimately show ?thesis using s3 pre_w dist
              by (intro exI [of _ ?pre]) (simp add: step_def)
          next
            case date: (Inr date)
            with m' server fs f out l Inr up have rr: "r = Inr ()" "w' = w4" by simp_all
            from update_config_ok [OF up [unfolded date]] obtain c0 cfg where
              lc: "load_config (config_file w3) = Inr c0"
              and ps: "py_setitem c0 ''date_checkpoint'' (JStr (strftime_checkpoint (clock w3))) = Inr cfg"
              and w4: "w4 = emit (EvWriteConfig cfg) (w3\<lparr>config_file := Parsed cfg\<rparr>)"
              by blast
            have c3: "config_file w3 = config_file w" "clock w3 = clock w"
              "events w3 = events w @ ?pre"
              using s3 by (simp_all add: step_def)
            have ev: "events w' = events w @ (?pre @ [EvWriteConfig cfg])"
              using rr w4 c3 by (simp add: emit_def)
            have "\<exists>pre c0 cfg fs'.
                  ?pre @ [EvWriteConfig cfg] = pre @ [EvWriteConfig cfg] \<and> write_calls pre = [] \<and>
                  get_workbooks_from_config w = Inr fs' \<and>
                  download_calls pre =
                    map wb_id
                      (filter (\<lambda>wb. \<exists>c\<in>set (wb_connections wb). connection_type c = ''snowflake'')
                         (map (populated api) (fst (workbooks_get api fs')))) \<and>
                  load_config (config_file w) = Inr c0 \<and>
                  py_setitem c0 ''date_checkpoint'' (JStr (strftime_checkpoint (clock w))) = Inr cfg \<and>
                  config_file w' = Parsed cfg"
              apply (rule exI [of _ ?pre], rule exI [of _ c0], rule exI [of _ cfg], rule exI [of _ fs])
              using pre_w pre_d kk res lc ps c3 cfg1 fs rr w4
              apply (simp add: emit_def)
              done
            then show ?thesis
              using ev rr w4 c3 dist
              apply (intro exI [of _ "?pre @ [EvWriteConfig cfg]"])
              apply (simp add: emit_def)
              done
          qed
        qed
      qed
    qed
  qed
qed


lemma map_of_dict_update: "map_of (dict_update k v kvs) = (map_of kvs)(k \<mapsto> v)"
  by (induction kvs) (auto simp: fun_eq_iff)


section \<open>Success of a run: proofs\<close>









text \<open>
  Claim C10: when the listing has no two workbooks with the same identifier, the filter's
  output has none either, however many Snowflake connections a workbook has; and a run
  over such a catalog downloads each workbook at most once and calls the update
  operation at most once for each.
\<close>

theorem each_workbook_at_most_once:
  "(distinct (map wb_id (fst (workbooks_get api workbooks))) \<and>
    filter_wbs_with_snowflake_connections api workbooks w = (Inr out, w') \<longrightarrow>
      distinct (map wb_id out)) \<and>
   ((\<forall>fs. distinct (map wb_id (fst (workbooks_get api fs)))) \<longrightarrow>
      (\<exists>evs. events (snd (main api w)) = events w @ evs \<and>
             distinct (download_calls evs) \<and> distinct (map wb_id (update_calls evs))))"
proof (intro conjI impI)
  assume a: "distinct (map wb_id (fst (workbooks_get api workbooks))) \<and>
             filter_wbs_with_snowflake_connections api workbooks w = (Inr out, w')"
  then have "distinct (map wb_id (map (populated api) (fst (workbooks_get api workbooks))))"
    by (simp add: comp_def)
  then have "distinct (map wb_id
               (filter (\<lambda>wb. \<exists>c\<in>set (wb_connections wb). connection_type c = ''snowflake'')
                  (map (populated api) (fst (workbooks_get api workbooks)))))"
    by (rule distinct_map_filter)
  with filter_wbs_result [OF a [THEN conjunct2]] show "distinct (map wb_id out)"
    by simp
next
  assume a: "\<forall>fs. distinct (map wb_id (fst (workbooks_get api fs)))"
  have "main api w = (fst (main api w), snd (main api w))" by simp
  from main_run [OF this] a
  show "\<exists>evs. events (snd (main api w)) = events w @ evs \<and>
              distinct (download_calls evs) \<and> distinct (map wb_id (update_calls evs))"
    by blast
qed

theorem each_workbook_at_most_once_witness:
  "populate_connections demo_api (demo_items ! 0) =
     Inr [\<lparr>connection_type = ''snowflake''\<rparr>, \<lparr>connection_type = ''snowflake''\<rparr>] \<and>
   distinct (map wb_id demo_filtered) \<and>
   (\<exists>evs. events (snd (main demo_api demo_world)) = events demo_world @ evs \<and>
          distinct (download_calls evs) \<and> distinct (map wb_id (update_calls evs)))"
proof -
  let ?w = "snd (filter_wbs_with_snowflake_connections demo_api [] demo_world)"
  have p: "populate_connections demo_api (demo_items ! 0) =
           Inr [\<lparr>connection_type = ''snowflake''\<rparr>, \<lparr>connection_type = ''snowflake''\<rparr>]"
    by (simp add: demo_api_def demo_items_def)
  have d: "\<forall>fs. distinct (map wb_id (fst (workbooks_get demo_api fs)))"
    by (simp add: demo_api_def demo_items_def)
  have "fst (filter_wbs_with_snowflake_connections demo_api [] demo_world) = Inr demo_filtered"
    by (simp add: filter_wbs_with_snowflake_connections_def demo_defs demo_filtered_def emit_def)
  then have h: "filter_wbs_with_snowflake_connections demo_api [] demo_world =
                (Inr demo_filtered, ?w)"
    by (simp add: prod_eq_iff)
  note t = each_workbook_at_most_once
  note c1 = t [of demo_api "[]" demo_world demo_filtered ?w, THEN conjunct1, rule_format,
               OF conjI [OF d [rule_format] h]]
  note c2 = t [of demo_api "[]" demo_world demo_filtered ?w, THEN conjunct2, THEN mp, OF d]
  show ?thesis
    by (intro conjI p c1 c2)
qed

text \<open>
  Claim C8: with a checkpoint file that is an object whose \<^verbatim>\<open>content_size\<close> is the integer
  \<open>n\<close> and whose \<^verbatim>\<open>date_checkpoint\<close> is \<open>d\<close>, the request options are the two filters
  \<^verbatim>\<open>size\<close> less than or equal to \<open>n * 1024 * 1024\<close> and \<^verbatim>\<open>updatedAt\<close> greater than or
  equal to \<open>d\<close>, and iterating the pager sends the query with exactly these options.
\<close>

theorem candidate_query_filter:
  "config_file w = Parsed (JDict kvs) \<and> map_of kvs ''content_size'' = Some (JInt n) \<and>
   map_of kvs ''date_checkpoint'' = Some d \<longrightarrow>
     get_workbooks_from_config w =
       Inr [Filter ''size'' LessThanOrEqual (JInt (n * (1024 * 1024))),
            Filter ''updatedAt'' GreaterThanOrEqual d] \<and>
     (\<exists>evs. events (snd (filter_wbs_with_snowflake_connections api
                           [Filter ''size'' LessThanOrEqual (JInt (n * (1024 * 1024))),
                            Filter ''updatedAt'' GreaterThanOrEqual d] w)) =
            events w @
            EvQuery [Filter ''size'' LessThanOrEqual (JInt (n * (1024 * 1024))),
                     Filter ''updatedAt'' GreaterThanOrEqual d] # evs)"
proof (intro impI conjI; elim conjE)
  let ?fs = "[Filter ''size'' LessThanOrEqual (JInt (n * (1024 * 1024))),
              Filter ''updatedAt'' GreaterThanOrEqual d]"
  assume "config_file w = Parsed (JDict kvs)" "map_of kvs ''content_size'' = Some (JInt n)"
    "map_of kvs ''date_checkpoint'' = Some d"
  then show "get_workbooks_from_config w = Inr ?fs"
    by (simp add: get_workbooks_from_config_def load_config_def py_getitem_def py_mul_def)
  have "filter_wbs_with_snowflake_connections api ?fs w =
        (fst (filter_wbs_with_snowflake_connections api ?fs w),
         snd (filter_wbs_with_snowflake_connections api ?fs w))"
    by simp
  from filter_wbs_step [OF this]
  show "\<exists>evs. events (snd (filter_wbs_with_snowflake_connections api ?fs w)) =
              events w @ EvQuery ?fs # evs"
    by (auto simp: step_def)
qed

theorem candidate_query_filter_witness:
  "get_workbooks_from_config demo_world =
     Inr [Filter ''size'' LessThanOrEqual (JInt 52428800),
          Filter ''updatedAt'' GreaterThanOrEqual (JStr ''2024-01-01T00:00:00Z'')]"
proof -
  have h: "config_file demo_world = Parsed (JDict demo_config) \<and>
           map_of demo_config ''content_size'' = Some (JInt 50) \<and>
           map_of demo_config ''date_checkpoint'' = Some (JStr ''2024-01-01T00:00:00Z'')"
    by (simp add: demo_world_def demo_config_def)
  from candidate_query_filter
         [of demo_world demo_config 50 "JStr ''2024-01-01T00:00:00Z''" demo_api, rule_format, OF h]
  show ?thesis by simp
qed

section \<open>The checkpoint format: proofs\<close>

lemma is_digit_digit_char: "is_digit (digit_char d)"
proof -
  have "d mod 10 < length ''0123456789''" by simp
  then have "''0123456789'' ! (d mod 10) \<in> set ''0123456789''" by (rule nth_mem)
  then show ?thesis by (simp only: is_digit_def digit_char_def)
qed

lemma digit_value_digit_char: "digit_value (digit_char d) = d mod 10"
proof -
  define k where "k = d mod 10"
  have "k < 10" by (simp add: k_def)
  then consider "k = 0" | "k = 1" | "k = 2" | "k = 3" | "k = 4" | "k = 5" | "k = 6" | "k = 7"
    | "k = 8" | "k = 9"
    by atomize_elim arith
  then have "digit_value (''0123456789'' ! k) = k"
    by cases (simp_all add: digit_value_def)
  then show ?thesis by (simp only: digit_char_def k_def)
qed

lemma decimal_pad2: "n < 100 \<Longrightarrow> decimal (pad2 n) = n"
  apply (simp add: decimal_def pad2_def digit_value_digit_char)
  done

lemma decimal_pad4:
  assumes "n < 10000"
  shows "decimal (pad4 n) = n"
proof -
  have d2: "n div 10 div 10 = n div 100"
    using div_mult2_eq [of n 10 10] by simp
  have d3: "n div 100 div 10 = n div 1000"
    using div_mult2_eq [of n 100 10] by simp
  have e1: "n = 10 * (n div 10) + n mod 10"
    by simp
  have "n div 10 = 10 * (n div 10 div 10) + n div 10 mod 10"
    by simp
  then have e2: "n div 10 = 10 * (n div 100) + n div 10 mod 10"
    by (simp only: d2)
  have "n div 100 = 10 * (n div 100 div 10) + n div 100 mod 10"
    by simp
  then have e3: "n div 100 = 10 * (n div 1000) + n div 100 mod 10"
    by (simp only: d3)
  have "n div 1000 < 10"
    using assms by simp
  then have m3: "n div 1000 mod 10 = n div 1000"
    by simp
  have "decimal (pad4 n) =
        10 * (10 * (10 * (n div 1000 mod 10) + n div 100 mod 10) + n div 10 mod 10) + n mod 10"
    by (simp only: decimal_def pad4_def digit_value_digit_char foldl.simps mult_0_right add_0)
  also have "\<dots> = 10 * (10 * (10 * (n div 1000) + n div 100 mod 10) + n div 10 mod 10) + n mod 10"
    by (simp only: m3)
  also have "\<dots> = 10 * (10 * (n div 100) + n div 10 mod 10) + n mod 10"
    using e3 by (simp only:)
  also have "\<dots> = 10 * (n div 10) + n mod 10"
    using e2 by (simp only:)
  also have "\<dots> = n"
    using e1 by (simp only:)
  finally show ?thesis .
qed

lemma length_pad [simp]: "length (pad2 n) = 2" "length (pad4 n) = 4"
  by (simp_all add: pad2_def pad4_def)

lemma digits_pad: "list_all is_digit (pad2 n)" "list_all is_digit (pad4 n)"
  by (simp_all add: pad2_def pad4_def is_digit_digit_char)


lemma strftime_checkpoint_parts:
  "length (strftime_checkpoint now) = 20"
  "take 4 (strftime_checkpoint now) = pad4 (year now)"
  "take 2 (drop 5 (strftime_checkpoint now)) = pad2 (month now)"
  "take 2 (drop 8 (strftime_checkpoint now)) = pad2 (day now)"
  "take 2 (drop 11 (strftime_checkpoint now)) = pad2 (hour now)"
  "take 2 (drop 14 (strftime_checkpoint now)) = pad2 (minute now)"
  "take 2 (drop 17 (strftime_checkpoint now)) = pad2 (second now)"
  by (simp_all add: strftime_checkpoint_def pad2_def pad4_def)

lemma strftime_checkpoint_separators:
  "strftime_checkpoint now ! 4 = CHR ''-''" "strftime_checkpoint now ! 7 = CHR ''-''"
  "strftime_checkpoint now ! 10 = CHR ''T''" "strftime_checkpoint now ! 13 = CHR '':''"
  "strftime_checkpoint now ! 16 = CHR '':''" "strftime_checkpoint now ! 19 = CHR ''Z''"
  by (simp_all add: strftime_checkpoint_def pad2_def pad4_def)

lemma strftime_checkpoint_format: "matches_checkpoint_format (strftime_checkpoint now)"
  unfolding matches_checkpoint_format_def
  by (simp only: strftime_checkpoint_parts strftime_checkpoint_separators digits_pad simp_thms)

lemma strftime_checkpoint_fields:
  assumes "valid_datetime now"
  shows "checkpoint_fields (strftime_checkpoint now) = now\<lparr>microsecond := 0\<rparr>"
proof -
  from assms have "year now < 10000" "month now < 100" "day now < 100" "hour now < 100"
    "minute now < 100" "second now < 100"
    by (simp_all add: valid_datetime_def)
  then show ?thesis
    unfolding checkpoint_fields_def
    by (simp only: strftime_checkpoint_parts decimal_pad2 decimal_pad4) simp
qed

text \<open>
  What the advance does with the reading of the local wall clock: with a checkpoint file
  that holds an object and a reading that is a date, it returns and stores under
  \<^verbatim>\<open>date_checkpoint\<close> the reading formatted as \<^verbatim>\<open>YYYY-MM-DDTHH:MM:SSZ\<close>, whose fields are
  those of the reading with the microseconds dropped; \<^verbatim>\<open>content_size\<close> and every other
  key of the file keep their values.
\<close>

lemma checkpoint_advance_local:
  "config_file w = Parsed (JDict kvs) \<and> valid_datetime (clock w) \<longrightarrow>
     (\<exists>kvs'. update_workbook_config_with_date_checkpoint w =
               (Inr (strftime_checkpoint (clock w)),
                emit (EvWriteConfig (JDict kvs')) (w\<lparr>config_file := Parsed (JDict kvs')\<rparr>)) \<and>
             py_getitem (JDict kvs') ''date_checkpoint'' =
               Inr (JStr (strftime_checkpoint (clock w))) \<and>
             py_getitem (JDict kvs') ''content_size'' = py_getitem (JDict kvs) ''content_size'' \<and>
             (\<forall>k. k \<noteq> ''date_checkpoint'' \<longrightarrow>
                  py_getitem (JDict kvs') k = py_getitem (JDict kvs) k)) \<and>
     matches_checkpoint_format (strftime_checkpoint (clock w)) \<and>
     checkpoint_fields (strftime_checkpoint (clock w)) = (clock w)\<lparr>microsecond := 0\<rparr>"
proof (intro impI conjI; elim conjE)
  assume c: "config_file w = Parsed (JDict kvs)" and v: "valid_datetime (clock w)"
  let ?s = "strftime_checkpoint (clock w)"
  let ?kvs = "dict_update ''date_checkpoint'' (JStr ?s) kvs"
  have u: "update_workbook_config_with_date_checkpoint w =
           (Inr ?s, emit (EvWriteConfig (JDict ?kvs)) (w\<lparr>config_file := Parsed (JDict ?kvs)\<rparr>))"
    by (simp add: update_workbook_config_with_date_checkpoint_def load_config_def py_setitem_def
          c Let_def)
  show "\<exists>kvs'. update_workbook_config_with_date_checkpoint w =
               (Inr (strftime_checkpoint (clock w)),
                emit (EvWriteConfig (JDict kvs')) (w\<lparr>config_file := Parsed (JDict kvs')\<rparr>)) \<and>
             py_getitem (JDict kvs') ''date_checkpoint'' =
               Inr (JStr (strftime_checkpoint (clock w))) \<and>
             py_getitem (JDict kvs') ''content_size'' = py_getitem (JDict kvs) ''content_size'' \<and>
             (\<forall>k. k \<noteq> ''date_checkpoint'' \<longrightarrow>
                  py_getitem (JDict kvs') k = py_getitem (JDict kvs) k)"
    by (rule exI [of _ ?kvs]) (simp add: u py_getitem_def map_of_dict_update)
  show "matches_checkpoint_format ?s"
    by (rule strftime_checkpoint_format)
  show "checkpoint_fields ?s = (clock w)\<lparr>microsecond := 0\<rparr>"
    by (rule strftime_checkpoint_fields [OF v])
qed

text \<open>
  Claim C3: the advance sets \<^verbatim>\<open>date_checkpoint\<close> to the current time as an ISO-8601 UTC
  instant, to the second, with a trailing \<^verbatim>\<open>Z\<close>, and leaves \<^verbatim>\<open>content_size\<close> as it is.
  On the machine two hours east of UTC, at 07:05:59 UTC, the script stores
  \<^verbatim>\<open>2024-06-01T09:05:59Z\<close>: the reading of the local wall clock, which
  \<^verbatim>\<open>datetime.datetime.now()\<close> returns, under a literal \<^verbatim>\<open>Z\<close>. The current time as a UTC
  instant is \<^verbatim>\<open>2024-06-01T07:05:59Z\<close>. The stored string has the stated shape and
  \<^verbatim>\<open>content_size\<close> is untouched.
\<close>

theorem checkpoint_advance_stores_local_time:
  "fst (update_workbook_config_with_date_checkpoint demo_world) = Inr ''2024-06-01T09:05:59Z'' \<and>
   config_file (snd (update_workbook_config_with_date_checkpoint demo_world)) =
     Parsed (JDict [(''content_size'', JInt 50),
                    (''date_checkpoint'', JStr ''2024-06-01T09:05:59Z'')]) \<and>
   config_file demo_world =
     Parsed (JDict [(''content_size'', JInt 50),
                    (''date_checkpoint'', JStr ''2024-01-01T00:00:00Z'')]) \<and>
   strftime_checkpoint (utc_clock demo_world) = ''2024-06-01T07:05:59Z'' \<and>
   matches_checkpoint_format ''2024-06-01T09:05:59Z'' \<and>
   checkpoint_fields ''2024-06-01T09:05:59Z'' = (clock demo_world)\<lparr>microsecond := 0\<rparr> \<and>
   checkpoint_fields ''2024-06-01T09:05:59Z'' \<noteq> (utc_clock demo_world)\<lparr>microsecond := 0\<rparr>"
proof -
  have s: "strftime_checkpoint (clock demo_world) = ''2024-06-01T09:05:59Z''"
    by (simp add: demo_world_def demo_now_def strftime_checkpoint_def pad2_def pad4_def
          digit_char_def)
  have a: "fst (update_workbook_config_with_date_checkpoint demo_world) =
           Inr ''2024-06-01T09:05:59Z''"
    by (simp add: run_defs demo_defs strftime_checkpoint_def pad2_def pad4_def digit_char_def)
  have b: "config_file (snd (update_workbook_config_with_date_checkpoint demo_world)) =
           Parsed (JDict [(''content_size'', JInt 50),
                          (''date_checkpoint'', JStr ''2024-06-01T09:05:59Z'')])"
    by (simp add: run_defs demo_defs strftime_checkpoint_def pad2_def pad4_def digit_char_def)
  have c: "config_file demo_world =
           Parsed (JDict [(''content_size'', JInt 50),
                          (''date_checkpoint'', JStr ''2024-01-01T00:00:00Z'')])"
    by (simp add: demo_defs)
  have d: "strftime_checkpoint (utc_clock demo_world) = ''2024-06-01T07:05:59Z''"
    by (simp add: demo_world_def demo_utc_now_def strftime_checkpoint_def pad2_def pad4_def
          digit_char_def)
  have e: "matches_checkpoint_format ''2024-06-01T09:05:59Z''"
    using strftime_checkpoint_format [of "clock demo_world"] by (simp only: s)
  have v: "valid_datetime (clock demo_world)"
    by (simp add: demo_world_def demo_now_def valid_datetime_def)
  have f: "checkpoint_fields ''2024-06-01T09:05:59Z'' = (clock demo_world)\<lparr>microsecond := 0\<rparr>"
    using strftime_checkpoint_fields [OF v] by (simp only: s)
  have g: "checkpoint_fields ''2024-06-01T09:05:59Z'' \<noteq> (utc_clock demo_world)\<lparr>microsecond := 0\<rparr>"
    by (simp add: f demo_world_def demo_now_def demo_utc_now_def)
  show ?thesis
    by (intro conjI a b c d e f g)
qed

end
